theory Spec2Isabelle
  imports Complex_Main "HOL-Library.Multiset"
begin

section \<open>JavaScript values\<close>

text \<open>
  The repository is TypeScript. A JavaScript \<open>number\<close> is modelled by an exact rational
  (\<open>rat\<close>), or by a \<open>real\<close> where the exponential function is needed; rounding to double
  or single precision is not part of the model. The non-finite results that the modelled
  code can produce from finite operands (\<open>0/0\<close>, \<open>x/0\<close>) are the constructors \<open>NaN\<close>,
  \<open>PosInf\<close> and \<open>NegInf\<close> of \<open>jsnum\<close>. An exception is a value of type \<open>error\<close>: \<open>RangeError\<close> and
  \<open>TypeError\<close> are raised by the runtime, \<open>Error msg\<close> by a \<open>throw new Error(msg)\<close> of
  the source. A function that can throw returns \<open>error + 'a\<close>.
\<close>

datatype error = RangeError | TypeError | Error string

datatype jsnum = Num rat | PosInf | NegInf | NaN

text \<open>Division of two non-negative integers, as \<open>a / b\<close> evaluates in JavaScript.\<close>

definition js_div :: "nat \<Rightarrow> nat \<Rightarrow> jsnum" where
  "js_div a b = (if b = 0 then (if a = 0 then NaN else PosInf) else Num (of_nat a / of_nat b))"

text \<open>Comparisons with a finite number; every comparison with \<open>NaN\<close> is false.\<close>

fun js_gt :: "jsnum \<Rightarrow> rat \<Rightarrow> bool" where
  "js_gt (Num x) y = (x > y)"
| "js_gt PosInf y = True"
| "js_gt NegInf y = False"
| "js_gt NaN y = False"


text \<open>\<open>Math.round\<close> rounds to the nearest integer, a half towards plus infinity.\<close>

definition math_round :: "rat \<Rightarrow> int" where
  "math_round x = \<lfloor>x + 1 / 2\<rfloor>"

text \<open>
  A number is usable as an index of an array of length \<open>n\<close> when it is an integer
  in \<open>0..n-1\<close>; any other number names a property the array does not have.
\<close>

definition is_index :: "rat \<Rightarrow> nat \<Rightarrow> bool" where
  "is_index x n = (x = of_int \<lfloor>x\<rfloor> \<and> 0 \<le> x \<and> x < of_nat n)"

definition to_index :: "rat \<Rightarrow> nat" where
  "to_index x = nat \<lfloor>x\<rfloor>"

text \<open>\<open>Array(n)\<close> accepts an integer \<open>n\<close> in \<open>0..2^32-1\<close> and throws a RangeError otherwise.\<close>

definition array_length :: "rat \<Rightarrow> error + nat" where
  "array_length x =
     (if x = of_int \<lfloor>x\<rfloor> \<and> 0 \<le> x \<and> x < 2 ^ 32 then Inr (to_index x) else Inl RangeError)"

section \<open>Math utilities\<close>

text \<open>
  \<open>Math.random()\<close> is a source of numbers that the caller threads through: \<open>g 0\<close> is the
  next number drawn and \<open>rng_drop n g\<close> the source after \<open>n\<close> draws. The runtime draws
  from the interval from 0 inclusive to 1 exclusive, which is \<open>math_random_ok\<close>.
\<close>

type_synonym rng = "nat \<Rightarrow> rat"

definition rng_drop :: "nat \<Rightarrow> rng \<Rightarrow> rng" where
  "rng_drop n g = (\<lambda>k. g (k + n))"


text \<open>\<open>sigmoid\<close>: the input is clipped at 20 and -20.\<close>

definition sigmoid :: "real \<Rightarrow> real" where
  "sigmoid x = (if x > 20 then 1 else if x < - 20 then 0 else 1 / (1 + exp (- x)))"

text \<open>
  \<open>shuffleIndices(length)\<close>: the loop \<open>for (i = length - 1; i > 0; i--)\<close> draws
  \<open>j = Math.floor(Math.random() * (i + 1))\<close> and swaps the entries \<open>i\<close> and \<open>j\<close>.
\<close>

fun shuffle_loop :: "nat \<Rightarrow> nat list \<Rightarrow> rng \<Rightarrow> nat list \<times> rng" where
  "shuffle_loop 0 indices g = (indices, g)"
| "shuffle_loop (Suc k) indices g =
     (let i = Suc k;
          j = nat \<lfloor>g 0 * of_nat (i + 1)\<rfloor>
      in shuffle_loop k (indices[i := indices ! j, j := indices ! i]) (rng_drop 1 g))"

definition shuffleIndices :: "nat \<Rightarrow> rng \<Rightarrow> nat list \<times> rng" where
  "shuffleIndices n g = shuffle_loop (n - 1) [0..<n] g"

text \<open>
  \<open>Math.floor(indices.length * trainRatio)\<close> for a ratio that may be infinite or \<open>NaN\<close>
  (the caller \<open>createDataSplits\<close> computes one by a division).
\<close>

fun js_times :: "nat \<Rightarrow> jsnum \<Rightarrow> jsnum" where
  "js_times n (Num r) = Num (of_nat n * r)"
| "js_times n PosInf = (if n = 0 then NaN else PosInf)"
| "js_times n NegInf = (if n = 0 then NaN else NegInf)"
| "js_times n NaN = NaN"

fun math_floor :: "jsnum \<Rightarrow> jsnum" where
  "math_floor (Num r) = Num (of_int \<lfloor>r\<rfloor>)"
| "math_floor x = x"

text \<open>
  \<open>Array.prototype.slice\<close> turns a bound into a position of the array: \<open>NaN\<close> is 0, a
  negative bound counts from the end, and the result is clamped to \<open>0..length\<close>.
\<close>

fun relative_index :: "jsnum \<Rightarrow> nat \<Rightarrow> nat" where
  "relative_index (Num r) len =
     (if r < 0 then nat (max (int len + \<lceil>r\<rceil>) 0) else min (nat \<lfloor>r\<rfloor>) len)"
| "relative_index PosInf len = len"
| "relative_index NegInf len = 0"
| "relative_index NaN len = 0"

definition slice :: "'a list \<Rightarrow> jsnum \<Rightarrow> jsnum \<Rightarrow> 'a list" where
  "slice xs start end =
     take (relative_index end (length xs) - relative_index start (length xs))
       (drop (relative_index start (length xs)) xs)"

definition slice_from :: "'a list \<Rightarrow> jsnum \<Rightarrow> 'a list" where
  "slice_from xs start = drop (relative_index start (length xs)) xs"

text \<open>
  \<open>classBuckets\<close> is an object whose property names are the labels. \<open>push_index\<close> is
  \<open>if (!classBuckets[label]) classBuckets[label] = []; classBuckets[label].push(index)\<close>
  on the properties in creation order. \<open>for (const classLabel in classBuckets)\<close> visits
  the names that are array indices (integers in \<open>0..2^32-2\<close>) first, in ascending
  order, and then the other names in creation order. A label is any number, also an
  infinite one or \<open>NaN\<close>: the preprocessor passes encoded target values.
\<close>

type_synonym buckets = "(jsnum \<times> nat list) list"

fun push_index :: "buckets \<Rightarrow> jsnum \<times> nat \<Rightarrow> buckets" where
  "push_index [] (label, index) = [(label, [index])]"
| "push_index ((k, b) # rest) (label, index) =
     (if k = label then (k, b @ [index]) # rest else (k, b) # push_index rest (label, index))"

fun is_array_index :: "jsnum \<Rightarrow> bool" where
  "is_array_index (Num k) = (k = of_int \<lfloor>k\<rfloor> \<and> 0 \<le> k \<and> k < 2 ^ 32 - 1)"
| "is_array_index x = False"

fun index_value :: "jsnum \<Rightarrow> rat" where
  "index_value (Num k) = k"
| "index_value x = 0"

definition for_in :: "buckets \<Rightarrow> buckets" where
  "for_in bs = sort_key (\<lambda>kb. index_value (fst kb)) (filter (\<lambda>kb. is_array_index (fst kb)) bs) @
               filter (\<lambda>kb. \<not> is_array_index (fst kb)) bs"

text \<open>
  The body of the \<open>for ... in\<close> loop: shuffle the bucket, take the first \<open>trainCount\<close>
  indices for training (\<open>slice(0, trainCount)\<close>) and the rest for validation
  (\<open>slice(trainCount)\<close>).
\<close>

fun split_buckets :: "jsnum \<Rightarrow> buckets \<Rightarrow> rng \<Rightarrow> nat list \<times> nat list \<Rightarrow> (nat list \<times> nat list) \<times> rng" where
  "split_buckets trainRatio [] g acc = (acc, g)"
| "split_buckets trainRatio ((classLabel, bucket) # rest) g (trainIndices, valIndices) =
     (let (perm, g') = shuffleIndices (length bucket) g;
          indices = map (\<lambda>i. bucket ! i) perm;
          trainCount = math_floor (js_times (length indices) trainRatio)
      in split_buckets trainRatio rest g'
           (trainIndices @ slice indices (Num 0) trainCount, valIndices @ slice_from indices trainCount))"

definition stratifiedSplit :: "jsnum list \<Rightarrow> jsnum \<Rightarrow> rng \<Rightarrow> (nat list \<times> nat list) \<times> rng" where
  "stratifiedSplit labels trainRatio g =
     (let classBuckets = foldl push_index [] (zip labels [0..<length labels])
      in split_buckets trainRatio (for_in classBuckets) g ([], []))"

subsection \<open>The stratified split is a partition\<close>




































section \<open>Evaluation metrics\<close>

text \<open>
  \<open>calculateConfusionMatrix(predictions, labels, numClasses?)\<close>. The class count is
  \<open>numClasses || Math.max(...labels, ...predictions) + 1\<close>: an absent or zero
  \<open>numClasses\<close> takes the maximum, which is \<open>-Infinity\<close> for two empty arrays.
  The matrix is allocated by \<open>Array(classes)\<close>.
\<close>

type_synonym matrix = "nat list list"

definition observed_classes :: "rat list \<Rightarrow> rat list \<Rightarrow> error + nat" where
  "observed_classes predictions labels =
     (if labels @ predictions = [] then Inl RangeError
      else array_length (Max (set (labels @ predictions)) + 1))"

definition class_count :: "rat list \<Rightarrow> rat list \<Rightarrow> nat option \<Rightarrow> error + nat" where
  "class_count predictions labels numClasses =
     (case numClasses of
        None \<Rightarrow> observed_classes predictions labels
      | Some n \<Rightarrow>
          if n = 0 then observed_classes predictions labels
          else array_length (of_nat n))"

text \<open>
  \<open>matrix[actual][pred]++\<close>. Inside the guard \<open>pred < classes && actual < classes\<close>
  the label can still be negative or fractional: then \<open>matrix[actual]\<close> is \<open>undefined\<close>
  and reading \<open>[pred]\<close> of it throws a TypeError. A negative \<open>pred\<close> names a property
  the row does not have; \<open>++\<close> stores \<open>NaN\<close> under that name and no cell changes.
\<close>

definition increment :: "matrix \<Rightarrow> rat \<Rightarrow> int \<Rightarrow> error + matrix" where
  "increment m actual pred =
     (if \<not> is_index actual (length m) then Inl TypeError
      else if pred < 0 then Inr m
      else Inr (m[to_index actual := (m ! to_index actual)[nat pred := Suc (m ! to_index actual ! nat pred)]]))"

text \<open>
  The loop \<open>for (i = 0; i < predictions.length; i++)\<close>, by recursion on both arrays: a
  prediction beyond the end of \<open>labels\<close> meets \<open>labels[i] = undefined\<close>, for which
  \<open>actual < classes\<close> is false.
\<close>

fun tally :: "nat \<Rightarrow> rat list \<Rightarrow> rat list \<Rightarrow> matrix \<Rightarrow> error + matrix" where
  "tally classes [] ls m = Inr m"
| "tally classes (p # ps) [] m = tally classes ps [] m"
| "tally classes (p # ps) (l # ls) m =
     (if math_round p < int classes \<and> l < of_nat classes
      then (case increment m l (math_round p) of
              Inl e \<Rightarrow> Inl e
            | Inr m' \<Rightarrow> tally classes ps ls m')
      else tally classes ps ls m)"

definition calculateConfusionMatrix :: "rat list \<Rightarrow> rat list \<Rightarrow> nat option \<Rightarrow> error + matrix" where
  "calculateConfusionMatrix predictions labels numClasses =
     (case class_count predictions labels numClasses of
        Inl e \<Rightarrow> Inl e
      | Inr classes \<Rightarrow> tally classes predictions labels (replicate classes (replicate classes 0)))"

text \<open>
  \<open>calculateAccuracy\<close>: \<open>correct / predictions.length\<close>, which is \<open>NaN\<close> for an empty
  array. \<open>Math.round(predictions[i]) === labels[i]\<close> is false beyond the end of \<open>labels\<close>.
\<close>

fun count_correct :: "rat list \<Rightarrow> rat list \<Rightarrow> nat" where
  "count_correct [] ls = 0"
| "count_correct (p # ps) [] = 0"
| "count_correct (p # ps) (l # ls) =
     (if of_int (math_round p) = l then 1 else 0) + count_correct ps ls"

definition calculateAccuracy :: "rat list \<Rightarrow> rat list \<Rightarrow> jsnum" where
  "calculateAccuracy predictions labels = js_div (count_correct predictions labels) (length predictions)"

definition diagonal_sum :: "matrix \<Rightarrow> nat" where
  "diagonal_sum m = (\<Sum>i\<leftarrow>[0..<length m]. m ! i ! i)"

definition cell_sum :: "matrix \<Rightarrow> nat" where
  "cell_sum m = (\<Sum>row\<leftarrow>m. sum_list row)"

text \<open>
  \<open>calculatePrecisionRecallF1(confusionMatrix, classIndex)\<close>. A matrix with fewer than
  two rows gives zeros. Otherwise \<open>confusionMatrix[classIndex][classIndex]\<close> is read
  first and throws a TypeError when the matrix has no row \<open>classIndex\<close>. A cell that a
  (ragged) row does not have reads as \<open>undefined\<close>; a sum with it is \<open>NaN\<close>, here
  \<open>None\<close>, every comparison \<open>NaN > 0\<close> is false and the quotient is replaced by 0.
\<close>

record class_metrics =
  precision :: rat
  recall :: rat
  f1 :: rat

definition cell :: "matrix \<Rightarrow> nat \<Rightarrow> nat \<Rightarrow> nat option" where
  "cell m i j = (if j < length (m ! i) then Some (m ! i ! j) else None)"

fun add_cell :: "nat option \<Rightarrow> nat option \<Rightarrow> nat option" where
  "add_cell (Some a) (Some b) = Some (a + b)"
| "add_cell _ _ = None"

fun ratio_or_zero :: "nat option \<Rightarrow> nat option \<Rightarrow> rat" where
  "ratio_or_zero (Some t) (Some d) = (if d > 0 then of_nat t / of_nat d else 0)"
| "ratio_or_zero _ _ = 0"

definition calculatePrecisionRecallF1 :: "matrix \<Rightarrow> nat \<Rightarrow> error + class_metrics" where
  "calculatePrecisionRecallF1 confusionMatrix classIndex =
     (if length confusionMatrix < 2 then Inr \<lparr>precision = 0, recall = 0, f1 = 0\<rparr>
      else if length confusionMatrix \<le> classIndex then Inl TypeError
      else
        let truePositives = cell confusionMatrix classIndex classIndex;
            falsePositives = foldl add_cell (Some 0)
              (map (\<lambda>i. cell confusionMatrix i classIndex)
                 (filter (\<lambda>i. i \<noteq> classIndex) [0..<length confusionMatrix]));
            falseNegatives = foldl add_cell (Some 0)
              (map (\<lambda>j. cell confusionMatrix classIndex j)
                 (filter (\<lambda>j. j \<noteq> classIndex) [0..<length (confusionMatrix ! classIndex)]));
            p = ratio_or_zero truePositives (add_cell truePositives falsePositives);
            r = ratio_or_zero truePositives (add_cell truePositives falseNegatives);
            f = (if p + r > 0 then 2 * (p * r) / (p + r) else 0)
        in Inr \<lparr>precision = p, recall = r, f1 = f\<rparr>)"

text \<open>
  \<open>findOptimalThreshold(probabilities, labels, metric)\<close>. The thresholds are
  \<open>Array.from({length: 100}, (_, i) => i / 100)\<close>; the best pair starts as
  \<open>(0.5, 0)\<close> and is replaced only by a strictly greater score.
\<close>

datatype metric = F1 | Youden

record optimum =
  threshold :: rat
  score :: rat

definition thresholds :: "rat list" where
  "thresholds = map (\<lambda>i. of_nat i / 100) [0..<100]"

definition binarize :: "rat \<Rightarrow> rat list \<Rightarrow> rat list" where
  "binarize t probabilities = map (\<lambda>p. if p \<ge> t then 1 else 0) probabilities"

definition score_at :: "rat list \<Rightarrow> rat list \<Rightarrow> metric \<Rightarrow> rat \<Rightarrow> error + rat" where
  "score_at probabilities labels metric t =
     (case calculateConfusionMatrix (binarize t probabilities) labels (Some 2) of
        Inl e \<Rightarrow> Inl e
      | Inr confusionMatrix \<Rightarrow>
          (case metric of
             F1 \<Rightarrow>
               (case calculatePrecisionRecallF1 confusionMatrix 1 of
                  Inl e \<Rightarrow> Inl e
                | Inr m1 \<Rightarrow> Inr (f1 m1))
           | Youden \<Rightarrow>
               (case calculatePrecisionRecallF1 confusionMatrix 1 of
                  Inl e \<Rightarrow> Inl e
                | Inr m1 \<Rightarrow>
                    (case calculatePrecisionRecallF1 confusionMatrix 0 of
                       Inl e \<Rightarrow> Inl e
                     | Inr m0 \<Rightarrow> Inr (recall m1 + recall m0 - 1)))))"

fun scan :: "(rat \<Rightarrow> error + rat) \<Rightarrow> rat list \<Rightarrow> optimum \<Rightarrow> error + optimum" where
  "scan sc [] best = Inr best"
| "scan sc (t # ts) best =
     (case sc t of
        Inl e \<Rightarrow> Inl e
      | Inr s \<Rightarrow> scan sc ts (if s > score best then \<lparr>threshold = t, score = s\<rparr> else best))"

definition findOptimalThreshold :: "rat list \<Rightarrow> rat list \<Rightarrow> metric \<Rightarrow> error + optimum" where
  "findOptimalThreshold probabilities labels metric =
     scan (score_at probabilities labels metric) thresholds \<lparr>threshold = 1 / 2, score = 0\<rparr>"

subsection \<open>What the confusion matrix counts\<close>

text \<open>
  A sample is counted in a cell when its rounded prediction is a column of the matrix
  and its label is below the class count; it is a hit when the rounded prediction is
  the label.
\<close>

definition square :: "nat \<Rightarrow> matrix \<Rightarrow> bool" where
  "square c m = (length m = c \<and> list_all (\<lambda>row. length row = c) m)"

definition counted :: "nat \<Rightarrow> rat \<times> rat \<Rightarrow> bool" where
  "counted c pl = (0 \<le> math_round (fst pl) \<and> math_round (fst pl) < int c \<and> snd pl < of_nat c)"

definition hit :: "rat \<times> rat \<Rightarrow> bool" where
  "hit pl = (of_int (math_round (fst pl)) = snd pl)"

lemma square_replicate: "square c (replicate c (replicate c 0))"
  by (simp add: square_def list_all_iff)

lemma cell_sum_replicate: "cell_sum (replicate c (replicate c 0)) = 0"
  by (simp add: cell_sum_def)

lemma diagonal_sum_replicate: "diagonal_sum (replicate c (replicate c 0)) = 0"
  by (simp add: diagonal_sum_def)

lemma square_update:
  "square c m \<Longrightarrow> a < c \<Longrightarrow> square c (m[a := (m ! a)[p := v]])"
  by (auto simp add: square_def list_all_length nth_list_update)

lemma cell_sum_update:
  assumes "square c m" "a < c" "p < c"
  shows "cell_sum (m[a := (m ! a)[p := Suc (m ! a ! p)]]) = Suc (cell_sum m)"
proof -
  have la: "a < length m" and lp: "p < length (m ! a)"
    using assms by (simp_all add: square_def list_all_length)
  have row: "sum_list ((m ! a)[p := Suc (m ! a ! p)]) = Suc (sum_list (m ! a))"
    using lp by (simp add: sum_list_update)
  have "cell_sum (m[a := (m ! a)[p := Suc (m ! a ! p)]])
        = sum_list ((map sum_list m)[a := Suc (sum_list (m ! a))])"
    by (simp add: cell_sum_def map_update row)
  also have "\<dots> = Suc (sum_list (map sum_list m))"
    using la by (simp add: sum_list_update)
  finally show ?thesis by (simp add: cell_sum_def)
qed

lemma is_index_to_index: "is_index x n \<Longrightarrow> to_index x < n \<and> of_nat (to_index x) = x"
  unfolding is_index_def to_index_def
  by (metis nat_less_iff of_int_of_nat_eq of_nat_nat zero_le_floor floor_less_iff of_int_floor_le le_less_trans)

lemma diagonal_sum_update:
  assumes "square c m" "a < c" "p < c"
  shows "diagonal_sum (m[a := (m ! a)[p := Suc (m ! a ! p)]]) =
         diagonal_sum m + (if a = p then 1 else 0)"
proof -
  let ?m' = "m[a := (m ! a)[p := Suc (m ! a ! p)]]"
  have la: "a < length m" and lp: "p < length (m ! a)"
    using assms by (simp_all add: square_def list_all_length)
  have cell: "\<And>i. i < length m \<Longrightarrow> ?m' ! i ! i = m ! i ! i + (if i = a \<and> a = p then 1 else 0)"
    using la lp by (auto simp add: nth_list_update)
  have "diagonal_sum ?m' = (\<Sum>i\<leftarrow>[0..<length m]. m ! i ! i + (if i = a \<and> a = p then 1 else 0))"
    unfolding diagonal_sum_def using cell by (auto intro!: arg_cong[where f=sum_list] map_cong)
  also have "\<dots> = diagonal_sum m + (\<Sum>i\<leftarrow>[0..<length m]. if i = a \<and> a = p then 1 else 0)"
    by (simp add: diagonal_sum_def sum_list_addf)
  also have "(\<Sum>i\<leftarrow>[0..<length m]. if i = a \<and> a = p then 1 else 0) = (if a = p then 1 else (0::nat))"
    using la by (simp add: interv_sum_list_conv_sum_set_nat)
  finally show ?thesis .
qed

lemma increment_effect:
  assumes sq: "square c m" and inc: "increment m l q = Inr m'" and ub: "q < int c"
  shows "square c m' \<and>
         cell_sum m' = cell_sum m + (if 0 \<le> q then 1 else 0) \<and>
         diagonal_sum m' = diagonal_sum m + (if 0 \<le> q \<and> of_int q = l then 1 else 0)"
proof -
  have len: "length m = c" using sq by (simp add: square_def)
  from inc have idx: "is_index l c"
    by (auto simp add: increment_def len split: if_splits)
  then have a: "to_index l < c" and al: "of_nat (to_index l) = l"
    using is_index_to_index by blast+
  show ?thesis
  proof (cases "q < 0")
    case True
    then have "m' = m" using inc idx by (simp add: increment_def len)
    with True sq show ?thesis by simp
  next
    case False
    then have p: "nat q < c" using ub by linarith
    have m': "m' = m[to_index l := (m ! to_index l)[nat q := Suc (m ! to_index l ! nat q)]]"
      using inc idx False by (simp add: increment_def len)
    have eq: "(to_index l = nat q) = (of_int q = l)"
    proof
      assume "to_index l = nat q"
      then have "of_nat (nat q) = l" using al by simp
      then show "of_int q = l" using False
        by (metis linorder_not_less of_nat_nat)
    next
      assume "of_int q = l"
      then show "to_index l = nat q" by (auto simp add: to_index_def)
    qed
    show ?thesis
      using False square_update[OF sq a] cell_sum_update[OF sq a p] diagonal_sum_update[OF sq a p]
      by (simp add: m' eq)
  qed
qed

lemma tally_counts:
  "square c m \<Longrightarrow> tally c ps ls m = Inr m' \<Longrightarrow>
     square c m' \<and>
     cell_sum m' = cell_sum m + length (filter (counted c) (zip ps ls)) \<and>
     diagonal_sum m' = diagonal_sum m + length (filter (\<lambda>pl. counted c pl \<and> hit pl) (zip ps ls))"
proof (induction c ps ls m rule: tally.induct)
  case (1 classes ls m)
  then show ?case by simp
next
  case (2 classes p ps m)
  then show ?case by simp
next
  case (3 classes p ps l ls m)
  show ?case
  proof (cases "math_round p < int classes \<and> l < of_nat classes")
    case False
    then have "tally classes ps ls m = Inr m'" using "3.prems"(2) by (auto split: if_splits)
    from "3.IH"(2)[OF False "3.prems"(1) this] False show ?thesis
      by (auto simp add: counted_def)
  next
    case True
    then obtain m1 where inc: "increment m l (math_round p) = Inr m1"
      and rest: "tally classes ps ls m1 = Inr m'"
      using "3.prems"(2) by (auto split: sum.splits)
    from increment_effect[OF "3.prems"(1) inc] True
    have sq1: "square classes m1"
      and c1: "cell_sum m1 = cell_sum m + (if 0 \<le> math_round p then 1 else 0)"
      and d1: "diagonal_sum m1 = diagonal_sum m + (if 0 \<le> math_round p \<and> of_int (math_round p) = l then 1 else 0)"
      by blast+
    from "3.IH"(1)[OF True inc sq1 rest] c1 d1 True show ?thesis
      by (auto simp add: counted_def hit_def)
  qed
qed

lemma calculateConfusionMatrix_counts:
  assumes "calculateConfusionMatrix predictions labels numClasses = Inr m"
  obtains classes where "class_count predictions labels numClasses = Inr classes"
    and "square classes m"
    and "cell_sum m = length (filter (counted classes) (zip predictions labels))"
    and "diagonal_sum m =
           length (filter (\<lambda>pl. counted classes pl \<and> hit pl) (zip predictions labels))"
proof -
  from assms obtain classes where cc: "class_count predictions labels numClasses = Inr classes"
    and t: "tally classes predictions labels (replicate classes (replicate classes 0)) = Inr m"
    by (auto simp add: calculateConfusionMatrix_def split: sum.splits)
  from tally_counts[OF square_replicate t] cc that show thesis
    by (simp add: cell_sum_replicate diagonal_sum_replicate)
qed

text \<open>
  Claim C10, as amended. Whenever \<open>calculateConfusionMatrix\<close> returns a matrix, the sum
  of all its cells is the number of indices \<open>i\<close> with
  \<open>0 \<le> round(predictions[i]) < classes\<close> and \<open>labels[i] < classes\<close>. A sample whose
  rounded prediction or label is at least the class count is skipped without an error,
  and so is one whose rounded prediction is negative; hence the sum never exceeds the
  number of samples and is strictly smaller as soon as one sample is not counted.
\<close>

theorem confusion_matrix_cell_sum:
  "calculateConfusionMatrix predictions labels numClasses = Inr m \<Longrightarrow>
     (\<exists>classes. class_count predictions labels numClasses = Inr classes \<and>
        cell_sum m = length (filter (counted classes) (zip predictions labels)) \<and>
        cell_sum m \<le> length predictions \<and>
        ((\<exists>pl \<in> set (zip predictions labels). \<not> counted classes pl) \<longrightarrow>
           cell_sum m < length predictions))"
proof -
  assume a: "calculateConfusionMatrix predictions labels numClasses = Inr m"
  from a obtain classes where cc: "class_count predictions labels numClasses = Inr classes"
    and cs: "cell_sum m = length (filter (counted classes) (zip predictions labels))"
    by (rule calculateConfusionMatrix_counts)
  have zl: "length (zip predictions labels) \<le> length predictions"
    by simp
  have "length (filter (counted classes) (zip predictions labels)) \<le> length (zip predictions labels)"
    by (rule length_filter_le)
  with zl cs have le: "cell_sum m \<le> length predictions"
    by linarith
  have lt: "cell_sum m < length predictions"
    if "\<exists>pl \<in> set (zip predictions labels). \<not> counted classes pl"
  proof -
    from that obtain pl where "pl \<in> set (zip predictions labels)" "\<not> counted classes pl"
      by blast
    then have "length (filter (counted classes) (zip predictions labels)) < length (zip predictions labels)"
      by (rule length_filter_less)
    with zl cs show ?thesis by linarith
  qed
  from cc cs le lt show ?thesis by blast
qed

text \<open>
  The theorem at three samples with an explicit class count 2 and one label 2: the
  matrix is returned, and its cells sum to 2.
\<close>

theorem confusion_matrix_cell_sum_witness:
  "calculateConfusionMatrix [0, 1, 1] [0, 1, 2] (Some 2) = Inr [[1, 0], [0, 1]] \<and>
   class_count [0, 1, 1] [0, 1, 2] (Some 2) = Inr 2 \<and>
   cell_sum [[1, 0], [0, 1]] = 2 \<and> cell_sum [[1, 0], [0, 1]] < length [0, 1, 1 :: rat]"
proof -
  have h: "calculateConfusionMatrix [0, 1, 1] [0, 1, 2] (Some 2) = Inr [[1, 0], [0, 1]]"
    by code_simp
  have c: "class_count [0, 1, 1] [0, 1, 2] (Some 2) = Inr 2"
    by code_simp
  from confusion_matrix_cell_sum[OF h] h c show ?thesis
    by (simp add: cell_sum_def)
qed

text \<open>
  Claim C10 as stated counts every index with \<open>round(predictions[i]) < classes\<close> and
  \<open>labels[i] < classes\<close>. The prediction \<open>-1\<close> with label \<open>0\<close> passes that guard, yet
  no cell is incremented: the sum of the cells is 0 and the claimed count is 1.
\<close>

theorem confusion_matrix_negative_prediction:
  "calculateConfusionMatrix [- 1] [0] (Some 2) = Inr [[0, 0], [0, 0]] \<and>
   cell_sum [[0, 0], [0, 0]] = 0 \<and>
   length (filter (\<lambda>(p, l). math_round p < 2 \<and> l < 2) (zip [- 1] [0 :: rat])) = 1"
  by (simp add: cell_sum_def math_round_def) code_simp

subsection \<open>Accuracy and the confusion matrix\<close>

lemma count_correct_hits: "count_correct ps ls = length (filter hit (zip ps ls))"
  by (induction ps ls rule: count_correct.induct) (simp_all add: hit_def)

lemma array_length_Inr:
  "array_length x = Inr c \<Longrightarrow> of_nat c = x"
  by (auto simp add: array_length_def to_index_def split: if_splits)

lemma observed_classes_bound:
  assumes "observed_classes predictions labels = Inr classes"
    and "x \<in> set predictions \<union> set labels"
  shows "x \<le> of_nat classes - 1"
proof -
  from assms(1) have ne: "labels @ predictions \<noteq> []"
    and al: "array_length (Max (set (labels @ predictions)) + 1) = Inr classes"
    by (auto simp add: observed_classes_def split: if_splits)
  have "x \<le> Max (set (labels @ predictions))"
    using assms(2) by (intro Max_ge) auto
  moreover have "of_nat classes = Max (set (labels @ predictions)) + 1"
    using array_length_Inr[OF al] .
  ultimately show ?thesis by simp
qed

lemma math_round_bound:
  assumes "x \<le> of_nat classes - 1"
  shows "math_round x < int classes"
proof -
  have "x + 1 / 2 < of_int (int classes)" using assms by simp
  then show ?thesis unfolding math_round_def by (simp only: floor_less_iff)
qed

text \<open>
  Claim C6, as amended. For predictions and labels of the same length, with no negative
  rounded prediction, for which \<open>calculateConfusionMatrix(predictions, labels)\<close> returns
  a matrix, the accuracy returned by \<open>calculateAccuracy\<close> equals the sum of the diagonal
  cells divided by the sum of all cells of that matrix.
\<close>

theorem accuracy_from_confusion_matrix:
  assumes len: "length predictions = length labels"
    and nonneg: "\<forall>p\<in>set predictions. 0 \<le> math_round p"
    and cm: "calculateConfusionMatrix predictions labels None = Inr m"
  shows "calculateAccuracy predictions labels = js_div (diagonal_sum m) (cell_sum m)"
proof -
  from cm obtain classes where cc: "class_count predictions labels None = Inr classes"
    and cs: "cell_sum m = length (filter (counted classes) (zip predictions labels))"
    and ds: "diagonal_sum m =
           length (filter (\<lambda>pl. counted classes pl \<and> hit pl) (zip predictions labels))"
    by (rule calculateConfusionMatrix_counts)
  from cc have oc: "observed_classes predictions labels = Inr classes"
    by (simp add: class_count_def)
  have all: "counted classes pl" if "pl \<in> set (zip predictions labels)" for pl
  proof -
    from that have p: "fst pl \<in> set predictions" and l: "snd pl \<in> set labels"
      by (metis prod.collapse set_zip_leftD, metis prod.collapse set_zip_rightD)
    have "fst pl \<le> of_nat classes - 1" "snd pl \<le> of_nat classes - 1"
      using observed_classes_bound[OF oc] p l by auto
    then show ?thesis
      using nonneg p math_round_bound by (auto simp add: counted_def)
  qed
  have "filter (counted classes) (zip predictions labels) = zip predictions labels"
    using all by (simp add: filter_id_conv)
  then have cs': "cell_sum m = length predictions"
    using cs len by simp
  have "filter (\<lambda>pl. counted classes pl \<and> hit pl) (zip predictions labels) =
        filter hit (zip predictions labels)"
    using all by (auto intro: filter_cong)
  then have "diagonal_sum m = count_correct predictions labels"
    using ds by (simp add: count_correct_hits)
  with cs' show ?thesis
    by (simp add: calculateAccuracy_def)
qed

text \<open>The theorem at four samples, three of them predicted correctly.\<close>

theorem accuracy_from_confusion_matrix_witness:
  "calculateConfusionMatrix [0, 1, 1, 0] [0, 1, 0, 0] None = Inr [[2, 1], [0, 1]] \<and>
   calculateAccuracy [0, 1, 1, 0] [0, 1, 0, 0] = Num (3 / 4) \<and>
   js_div (diagonal_sum [[2, 1], [0, 1]]) (cell_sum [[2, 1], [0, 1]]) = Num (3 / 4)"
proof -
  have h: "calculateConfusionMatrix [0, 1, 1, 0] [0, 1, 0, 0] None = Inr [[2, 1], [0, 1]]"
    by code_simp
  have n: "\<forall>p\<in>set [0, 1, 1, 0 :: rat]. 0 \<le> math_round p"
    by (simp add: math_round_def)
  have d: "js_div (diagonal_sum [[2, 1], [0, 1]]) (cell_sum [[2, 1], [0, 1]]) = Num (3 / 4)"
    by code_simp
  from accuracy_from_confusion_matrix[OF _ n h] h d show ?thesis
    by simp
qed

text \<open>
  Claim C6 as stated covers every pair of arrays. For two empty arrays the accuracy is
  \<open>0/0 = NaN\<close> and no matrix is built at all: \<open>Math.max()\<close> of nothing is \<open>-Infinity\<close> and
  \<open>Array(-Infinity)\<close> throws. For the prediction \<open>-1\<close> with label \<open>0\<close> the accuracy is
  0 while the one-cell matrix stays empty, so that diagonal over total is \<open>0/0\<close>.
\<close>

theorem accuracy_without_matrix:
  "calculateAccuracy [] [] = NaN \<and>
   calculateConfusionMatrix [] [] None = Inl RangeError \<and>
   calculateAccuracy [- 1] [0] = Num 0 \<and>
   calculateConfusionMatrix [- 1] [0] None = Inr [[0]] \<and>
   js_div (diagonal_sum [[0]]) (cell_sum [[0]]) = NaN"
  by code_simp

subsection \<open>The threshold search\<close>









text \<open>
  The search returns a result whenever every label is a class index (a non-negative
  integer); a negative or fractional label below 2 makes the confusion matrix throw.
\<close>

definition class_label :: "rat \<Rightarrow> bool" where
  "class_label l = (l = of_int \<lfloor>l\<rfloor> \<and> 0 \<le> l)"

lemma tally_total:
  "square c m \<Longrightarrow> list_all class_label ls \<Longrightarrow> \<exists>m'. tally c ps ls m = Inr m'"
proof (induction c ps ls m rule: tally.induct)
  case (1 classes ls m)
  then show ?case by simp
next
  case (2 classes p ps m)
  then show ?case by simp
next
  case (3 classes p ps l ls m)
  show ?case
  proof (cases "math_round p < int classes \<and> l < of_nat classes")
    case False
    with "3.IH"(2)[OF False "3.prems"(1)] "3.prems"(2) show ?thesis by auto
  next
    case True
    have "is_index l (length m)"
      using True "3.prems" by (simp add: is_index_def class_label_def square_def)
    then have "\<exists>m1. increment m l (math_round p) = Inr m1"
      by (simp add: increment_def)
    then obtain m1 where inc: "increment m l (math_round p) = Inr m1" ..
    from increment_effect[OF "3.prems"(1) inc] True have "square classes m1" by blast
    from "3.IH"(1)[OF True inc this] "3.prems"(2) True inc show ?thesis by auto
  qed
qed

lemma score_at_total:
  assumes "list_all class_label labels"
  shows "\<exists>s. score_at probabilities labels metric t = Inr s"
proof -
  have cc: "class_count (binarize t probabilities) labels (Some 2) = Inr 2"
    by (simp add: class_count_def array_length_def to_index_def)
  from tally_total[OF square_replicate assms]
  obtain m where t: "tally 2 (binarize t probabilities) labels (replicate 2 (replicate 2 0)) = Inr m"
    by blast
  then have cm: "calculateConfusionMatrix (binarize t probabilities) labels (Some 2) = Inr m"
    by (simp add: calculateConfusionMatrix_def cc)
  from tally_counts[OF square_replicate t] have "length m = 2"
    by (simp add: square_def)
  then obtain x1 x0 where "calculatePrecisionRecallF1 m 1 = Inr x1" "calculatePrecisionRecallF1 m 0 = Inr x0"
    by (simp add: calculatePrecisionRecallF1_def Let_def)
  with cm show ?thesis
    by (cases metric) (simp_all add: score_at_def)
qed

lemma scan_total:
  "\<forall>t. \<exists>s. sc t = Inr s \<Longrightarrow> \<exists>r. scan sc ts best = Inr r"
proof (induction ts arbitrary: best)
  case Nil
  then show ?case by simp
next
  case (Cons t ts)
  from Cons.prems obtain s where "sc t = Inr s" by blast
  with Cons.IH[OF Cons.prems] show ?case by simp
qed

lemma findOptimalThreshold_total:
  "list_all class_label labels \<Longrightarrow> \<exists>r. findOptimalThreshold probabilities labels metric = Inr r"
  unfolding findOptimalThreshold_def
  by (rule scan_total) (simp add: score_at_total)




section \<open>CSV parsing and type inference\<close>

text \<open>
  A string is a list of characters with codes below 256. Three built-ins of the
  JavaScript runtime that the parser and the preprocessor call have no source in the
  repository and are parameters of the functions that use them:
  \<^item> \<open>parseFloat :: string \<Rightarrow> jsnum\<close>;
  \<^item> \<open>dateValid :: string \<Rightarrow> bool\<close>, true when \<open>new Date(v).getTime()\<close> is not \<open>NaN\<close>;
  \<^item> in the preprocessor, \<open>Number.prototype.toString\<close> and \<open>Math.sqrt\<close>.
\<close>

subsection \<open>Strings\<close>

definition is_space :: "char \<Rightarrow> bool" where
  "is_space c = (of_char c \<in> {9, 10, 11, 12, 13, 32, 160 :: nat})"

definition trim :: "string \<Rightarrow> string" where
  "trim s = rev (dropWhile is_space (rev (dropWhile is_space s)))"

definition lower_char :: "char \<Rightarrow> char" where
  "lower_char c =
     (let n = of_char c :: nat
      in if (65 \<le> n \<and> n \<le> 90) \<or> (192 \<le> n \<and> n \<le> 222 \<and> n \<noteq> 215) then char_of (n + 32) else c)"

definition toLowerCase :: "string \<Rightarrow> string" where
  "toLowerCase s = map lower_char s"


text \<open>The elements of \<open>new Set(values)\<close>: the distinct values, each at its first occurrence.\<close>

definition set_values :: "'a list \<Rightarrow> 'a list" where
  "set_values xs = rev (remdups (rev xs))"




subsection \<open>Data model\<close>

datatype ColumnType = Numeric | Categorical | Boolean | Datetime | Text

text \<open>
  \<open>InferredColumnMeta\<close>. The numeric summary (\<open>min\<close>, \<open>max\<close>, \<open>mean\<close>, \<open>std\<close>) is not
  modelled: no function of the pipeline reads it.
\<close>

record InferredColumnMeta =
  name :: string
  index :: nat
  inferredType :: ColumnType
  missingCount :: nat
  uniqueValues :: "string list option"

record RawDataset =
  dataset_name :: string
  originalCSV :: string
  rows :: "string list list"
  header :: "string list"





subsection \<open>Lines and fields\<close>






subsection \<open>Validation of the header and of the row lengths\<close>





subsection \<open>Type inference\<close>

text \<open>
  The pattern \<open>/\d{4}|\d{1,2}\/\d{1,2}|\d{1,2}-\d{1,2}/\<close> matches a string that contains
  four digits in a row, or a digit, a slash and a digit, or a digit, a hyphen and a
  digit.
\<close>

definition is_digit :: "char \<Rightarrow> bool" where
  "is_digit c = (48 \<le> (of_char c :: nat) \<and> (of_char c :: nat) \<le> 57)"

fun date_prefix :: "string \<Rightarrow> bool" where
  "date_prefix (a # b # c # d # rest) =
     ((is_digit a \<and> is_digit b \<and> is_digit c \<and> is_digit d) \<or>
      (is_digit a \<and> (b = CHR ''/'' \<or> b = CHR ''-'') \<and> is_digit c))"
| "date_prefix [a, b, c] = (is_digit a \<and> (b = CHR ''/'' \<or> b = CHR ''-'') \<and> is_digit c)"
| "date_prefix s = False"

fun date_like :: "string \<Rightarrow> bool" where
  "date_like [] = False"
| "date_like (c # cs) = (date_prefix (c # cs) \<or> date_like cs)"

fun is_finite :: "jsnum \<Rightarrow> bool" where
  "is_finite (Num x) = True"
| "is_finite x = False"

definition booleanValues :: "string list" where
  "booleanValues = [''true'', ''false'', ''1'', ''0'', ''yes'', ''no'']"

definition inferSingleColumnType ::
  "(string \<Rightarrow> jsnum) \<Rightarrow> (string \<Rightarrow> bool) \<Rightarrow> string list \<Rightarrow> ColumnType" where
  "inferSingleColumnType parseFloat dateValid values =
     (if length values = 0 then Text
      else if list_all (\<lambda>v. toLowerCase v \<in> set booleanValues) values then Boolean
      else if of_nat (length (filter (\<lambda>v. is_finite (parseFloat v)) values)) / of_nat (length values)
                \<ge> (8 / 10 :: rat) then Numeric
      else if of_nat (length (filter (\<lambda>v. dateValid v \<and> date_like v) values)) / of_nat (length values)
                \<ge> (8 / 10 :: rat) then Datetime
      else if card (set values) \<le> 30 \<and> of_nat (card (set values)) < of_nat (length values) * (1 / 2 :: rat)
           then Categorical
      else Text)"



subsection \<open>Readiness for training\<close>


subsection \<open>parseCSV\<close>






subsection \<open>The row-length policy of parseCSV\<close>
















subsection \<open>The rules of type inference\<close>

text \<open>
  The rules of claim C8 in the words of the specification, for comparison with
  \<open>inferSingleColumnType\<close>: 80 percent is \<open>100 * count \<ge> 80 * length\<close>, less than half is
  \<open>2 * unique < length\<close>.
\<close>

definition spec_column_type ::
  "(string \<Rightarrow> jsnum) \<Rightarrow> (string \<Rightarrow> bool) \<Rightarrow> string list \<Rightarrow> ColumnType" where
  "spec_column_type parseFloat dateValid values =
     (if \<forall>v\<in>set values. toLowerCase v \<in> {''true'', ''false'', ''1'', ''0'', ''yes'', ''no''} then Boolean
      else if 100 * length (filter (\<lambda>v. is_finite (parseFloat v)) values) \<ge> 80 * length values
           then Numeric
      else if 100 * length (filter (\<lambda>v. dateValid v \<and> date_like v) values) \<ge> 80 * length values
           then Datetime
      else if card (set values) \<le> 30 \<and> 2 * card (set values) < length values then Categorical
      else Text)"

lemma share_ge_80:
  assumes "n > 0"
  shows "((8 / 10 :: rat) \<le> of_nat k / of_nat n) = (80 * n \<le> 100 * k)"
proof -
  have "((8 / 10 :: rat) \<le> of_nat k / of_nat n) = ((of_nat (80 * n) :: rat) \<le> of_nat (100 * k))"
    using assms by (simp add: field_simps)
  then show ?thesis by (simp only: of_nat_le_iff)
qed

lemma less_half:
  "((of_nat u :: rat) < of_nat n * (1 / 2)) = (2 * u < n)"
proof -
  have "((of_nat u :: rat) < of_nat n * (1 / 2)) = ((of_nat (2 * u) :: rat) < of_nat n)"
    by (simp add: field_simps)
  then show ?thesis by (simp only: of_nat_less_iff)
qed

lemma inferSingleColumnType_spec:
  assumes "values \<noteq> []"
  shows "inferSingleColumnType pf dv values = spec_column_type pf dv values"
proof -
  have n: "length values > 0" using assms by simp
  have b: "list_all (\<lambda>v. toLowerCase v \<in> set booleanValues) values =
           (\<forall>v\<in>set values. toLowerCase v \<in> {''true'', ''false'', ''1'', ''0'', ''yes'', ''no''})"
    by (simp add: list_all_iff booleanValues_def)
  show ?thesis
    unfolding inferSingleColumnType_def spec_column_type_def b share_ge_80[OF n] less_half
    using assms by simp
qed

lemma five_increasing_not_boolean:
  assumes words: "\<forall>v. toLowerCase v \<in> set booleanValues \<longrightarrow> pf v \<in> {Num 0, Num 1, NaN}"
    and vals: "map pf values = map Num xs" and five: "length values = 5" and inc: "sorted_wrt (<) xs"
  shows "\<not> list_all (\<lambda>v. toLowerCase v \<in> set booleanValues) values"
proof
  assume all: "list_all (\<lambda>v. toLowerCase v \<in> set booleanValues) values"
  have len: "length xs = 5" using vals five by (metis length_map)
  have "x \<in> {0, 1}" if "x \<in> set xs" for x
  proof -
    from that have "Num x \<in> set (map pf values)" unfolding vals by simp
    then obtain v where v: "v \<in> set values" "pf v = Num x" by auto
    with all have "toLowerCase v \<in> set booleanValues" by (simp add: list_all_iff)
    with words v(2) show ?thesis by auto
  qed
  then have "set xs \<subseteq> {0, 1}" by blast
  then have "card (set xs) \<le> card {0, 1 :: rat}" by (intro card_mono) simp_all
  moreover have "distinct xs" using inc by (simp add: strict_sorted_iff)
  then have "card (set xs) = 5" using len by (simp add: distinct_card)
  ultimately show False by simp
qed

lemma five_increasing_numeric:
  assumes words: "\<forall>v. toLowerCase v \<in> set booleanValues \<longrightarrow> pf v \<in> {Num 0, Num 1, NaN}"
    and vals: "map pf values = map Num xs" and five: "length values = 5" and inc: "sorted_wrt (<) xs"
  shows "inferSingleColumnType pf dv values = Numeric"
proof -
  have nb: "\<not> list_all (\<lambda>v. toLowerCase v \<in> set booleanValues) values"
    using assms by (rule five_increasing_not_boolean)
  have "is_finite (pf v)" if "v \<in> set values" for v
  proof -
    from that have "pf v \<in> set (map Num xs)" unfolding vals[symmetric] by simp
    then show ?thesis by auto
  qed
  then have "filter (\<lambda>v. is_finite (pf v)) values = values"
    by (simp add: filter_id_conv)
  then show ?thesis
    using nb five by (simp add: inferSingleColumnType_def)
qed

lemma letters_text:
  assumes "\<not> is_finite (pf ''x'')" "\<not> is_finite (pf ''y'')" "\<not> is_finite (pf ''z'')"
  shows "inferSingleColumnType pf dv [''x'', ''y'', ''x'', ''x'', ''z''] = Text"
proof -
  have b: "\<not> list_all (\<lambda>v. toLowerCase v \<in> set booleanValues) [''x'', ''y'', ''x'', ''x'', ''z'']"
    by (simp add: booleanValues_def toLowerCase_def lower_char_def)
  have d: "\<not> date_like ''x''" "\<not> date_like ''y''" "\<not> date_like ''z''"
    by simp_all
  have c: "card (set [''x'', ''y'', ''x'', ''x'', ''z'']) = 3"
    by (simp add: card_insert_if)
  show ?thesis
    unfolding inferSingleColumnType_def using assms b d
    by (simp only: c) simp
qed

text \<open>
  Claim C8, as amended. For every non-empty list of values \<open>inferSingleColumnType\<close>
  follows the rules: boolean if every value is one of true, false, 1, 0, yes, no
  (case-insensitively); otherwise numeric if at least 80 percent parse as finite
  numbers; otherwise datetime if at least 80 percent are valid dates that match the
  date-like pattern; otherwise categorical if there are at most 30 distinct values and
  fewer than half as many as values; otherwise text. The empty list is text. The column
  x, y, x, x, z is text, because its 3 distinct values are not fewer than half of 5. A
  column of 5 strictly increasing numbers is numeric (for a \<open>parseFloat\<close> that reads the
  boolean words as 0, 1 or \<open>NaN\<close>, as the runtime's does).
\<close>

theorem inferSingleColumnType_rules:
  "(values \<noteq> [] \<longrightarrow> inferSingleColumnType pf dv values = spec_column_type pf dv values) \<and>
   inferSingleColumnType pf dv [] = Text \<and>
   (\<not> is_finite (pf ''x'') \<and> \<not> is_finite (pf ''y'') \<and> \<not> is_finite (pf ''z'') \<longrightarrow>
      inferSingleColumnType pf dv [''x'', ''y'', ''x'', ''x'', ''z''] = Text) \<and>
   ((\<forall>v. toLowerCase v \<in> set booleanValues \<longrightarrow> pf v \<in> {Num 0, Num 1, NaN}) \<and>
    map pf values = map Num xs \<and> length values = 5 \<and> sorted_wrt (<) xs \<longrightarrow>
      inferSingleColumnType pf dv values = Numeric)"
proof (intro conjI impI)
  assume "values \<noteq> []"
  then show "inferSingleColumnType pf dv values = spec_column_type pf dv values"
    by (rule inferSingleColumnType_spec)
next
  show "inferSingleColumnType pf dv [] = Text"
    by (simp add: inferSingleColumnType_def)
next
  assume "\<not> is_finite (pf ''x'') \<and> \<not> is_finite (pf ''y'') \<and> \<not> is_finite (pf ''z'')"
  then show "inferSingleColumnType pf dv [''x'', ''y'', ''x'', ''x'', ''z''] = Text"
    using letters_text by blast
next
  assume "(\<forall>v. toLowerCase v \<in> set booleanValues \<longrightarrow> pf v \<in> {Num 0, Num 1, NaN}) \<and>
    map pf values = map Num xs \<and> length values = 5 \<and> sorted_wrt (<) xs"
  then show "inferSingleColumnType pf dv values = Numeric"
    using five_increasing_numeric by blast
qed

text \<open>The theorem at a column of five increasing decimal numbers.\<close>

theorem inferSingleColumnType_rules_witness:
  "[''0.5'', ''1.25'', ''2'', ''3.75'', ''10''] \<noteq> [] \<and>
   sorted_wrt (<) [1 / 2, 5 / 4, 2, 15 / 4, 10 :: rat] \<and>
   inferSingleColumnType
     (\<lambda>s. if s = ''0.5'' then Num (1 / 2) else if s = ''1.25'' then Num (5 / 4)
          else if s = ''2'' then Num 2 else if s = ''3.75'' then Num (15 / 4)
          else if s = ''10'' then Num 10 else NaN)
     (\<lambda>s. False) [''0.5'', ''1.25'', ''2'', ''3.75'', ''10''] = Numeric \<and>
   spec_column_type
     (\<lambda>s. if s = ''0.5'' then Num (1 / 2) else if s = ''1.25'' then Num (5 / 4)
          else if s = ''2'' then Num 2 else if s = ''3.75'' then Num (15 / 4)
          else if s = ''10'' then Num 10 else NaN)
     (\<lambda>s. False) [''0.5'', ''1.25'', ''2'', ''3.75'', ''10''] = Numeric"
proof -
  let ?pf = "\<lambda>s. if s = ''0.5'' then Num (1 / 2) else if s = ''1.25'' then Num (5 / 4)
          else if s = ''2'' then Num 2 else if s = ''3.75'' then Num (15 / 4)
          else if s = ''10'' then Num 10 else NaN"
  let ?vs = "[''0.5'', ''1.25'', ''2'', ''3.75'', ''10'']"
  have w: "\<forall>v. toLowerCase v \<in> set booleanValues \<longrightarrow> ?pf v \<in> {Num 0, Num 1, NaN}"
    by (auto simp add: booleanValues_def toLowerCase_def lower_char_def)
  have m: "map ?pf ?vs = map Num [1 / 2, 5 / 4, 2, 15 / 4, 10]"
    by simp
  have s: "sorted_wrt (<) [1 / 2, 5 / 4, 2, 15 / 4, 10 :: rat]"
    by simp
  have ne: "?vs \<noteq> []" by simp
  note rules = inferSingleColumnType_rules[of ?vs ?pf "\<lambda>s. False" "[1 / 2, 5 / 4, 2, 15 / 4, 10]"]
  from rules ne have e: "inferSingleColumnType ?pf (\<lambda>s. False) ?vs = spec_column_type ?pf (\<lambda>s. False) ?vs"
    by blast
  have l: "length ?vs = 5" by simp
  from rules w m s l have n: "inferSingleColumnType ?pf (\<lambda>s. False) ?vs = Numeric"
    by blast
  from s n e ne show ?thesis by (simp only: simp_thms)
qed

text \<open>
  Claim C8 as stated infers the column x, y, x, x, z as categorical, and applies the
  boolean rule to every list. The column has 3 distinct values among 5, which is not
  less than half, and is inferred text; the empty list, on which the boolean rule holds
  vacuously, is inferred text as well.
\<close>

theorem inferSingleColumnType_three_of_five:
  "inferSingleColumnType (\<lambda>s. NaN) (\<lambda>s. False) [''x'', ''y'', ''x'', ''x'', ''z''] = Text \<and>
   card (set [''x'', ''y'', ''x'', ''x'', ''z'']) = 3 \<and>
   inferSingleColumnType (\<lambda>s. NaN) (\<lambda>s. False) [] = Text \<and>
   spec_column_type (\<lambda>s. NaN) (\<lambda>s. False) [] = Boolean"
  by code_simp

section \<open>Preprocessing\<close>

subsection \<open>Arithmetic on numbers that may be infinite or NaN\<close>

text \<open>
  The encoded values come from \<open>parseFloat\<close>, which can return an infinity, so the
  arithmetic of the preprocessor is modelled on \<open>jsnum\<close>. A zero divisor is the
  positive zero.
\<close>

fun js_neg :: "jsnum \<Rightarrow> jsnum" where
  "js_neg (Num a) = Num (- a)"
| "js_neg PosInf = NegInf"
| "js_neg NegInf = PosInf"
| "js_neg NaN = NaN"

fun js_add :: "jsnum \<Rightarrow> jsnum \<Rightarrow> jsnum" where
  "js_add (Num a) (Num b) = Num (a + b)"
| "js_add NaN y = NaN"
| "js_add x NaN = NaN"
| "js_add PosInf NegInf = NaN"
| "js_add NegInf PosInf = NaN"
| "js_add PosInf y = PosInf"
| "js_add x PosInf = PosInf"
| "js_add NegInf y = NegInf"
| "js_add x NegInf = NegInf"

definition js_sub :: "jsnum \<Rightarrow> jsnum \<Rightarrow> jsnum" where
  "js_sub x y = js_add x (js_neg y)"

fun js_sign :: "jsnum \<Rightarrow> int" where
  "js_sign (Num a) = (if a > 0 then 1 else if a < 0 then - 1 else 0)"
| "js_sign PosInf = 1"
| "js_sign NegInf = - 1"
| "js_sign NaN = 0"

definition js_mul :: "jsnum \<Rightarrow> jsnum \<Rightarrow> jsnum" where
  "js_mul x y =
     (case (x, y) of
        (Num a, Num b) \<Rightarrow> Num (a * b)
      | _ \<Rightarrow> if js_sign x * js_sign y = 0 then NaN
             else if js_sign x * js_sign y > 0 then PosInf else NegInf)"

definition js_quot :: "jsnum \<Rightarrow> jsnum \<Rightarrow> jsnum" where
  "js_quot x y =
     (case (x, y) of
        (Num a, Num b) \<Rightarrow>
          if b \<noteq> 0 then Num (a / b) else if a > 0 then PosInf else if a < 0 then NegInf else NaN
      | (Num a, PosInf) \<Rightarrow> Num 0
      | (Num a, NegInf) \<Rightarrow> Num 0
      | (PosInf, Num b) \<Rightarrow> if b \<ge> 0 then PosInf else NegInf
      | (NegInf, Num b) \<Rightarrow> if b \<ge> 0 then NegInf else PosInf
      | _ \<Rightarrow> NaN)"

text \<open>\<open>Math.sqrt\<close>, with the square root of a non-negative rational as a parameter.\<close>

fun js_sqrt :: "(rat \<Rightarrow> rat) \<Rightarrow> jsnum \<Rightarrow> jsnum" where
  "js_sqrt sq (Num a) = (if a < 0 then NaN else Num (sq a))"
| "js_sqrt sq PosInf = PosInf"
| "js_sqrt sq NegInf = NaN"
| "js_sqrt sq NaN = NaN"

definition js_sum :: "jsnum list \<Rightarrow> jsnum" where
  "js_sum xs = foldl js_add (Num 0) xs"

text \<open>
  \<open>zScoreNormalize(values)\<close> of the math utilities: mean, population standard
  deviation, and the values scaled; a zero deviation gives zeros and the deviation 1.
\<close>

definition zScoreNormalize :: "(rat \<Rightarrow> rat) \<Rightarrow> jsnum list \<Rightarrow> jsnum list \<times> jsnum \<times> jsnum" where
  "zScoreNormalize sq values =
     (let mean = js_quot (js_sum values) (Num (of_nat (length values)));
          variance = js_quot
            (foldl (\<lambda>acc val. js_add acc (js_mul (js_sub val mean) (js_sub val mean))) (Num 0) values)
            (Num (of_nat (length values)));
          std = js_sqrt sq variance
      in if std = Num 0 then (map (\<lambda>x. Num 0) values, mean, Num 1)
         else (map (\<lambda>x. js_quot (js_sub x mean) std) values, mean, std))"

subsection \<open>Data model\<close>

datatype strategy = Drop | Mean | Mode

record PreprocessingConfig =
  targetColumn :: string
  selectedFeatures :: "string list"
  normalization :: bool
  missingValueStrategy :: "string \<Rightarrow> strategy option"
  trainSplitRatio :: rat
  validationSplitRatio :: "rat option"
  removeConstantFeatures :: bool
  removeHighMissingFeatures :: bool
  oneHotEncode :: bool

text \<open>
  \<open>EncodingInfo\<close>. A category is a cell value; a cell that the row does not have is
  \<open>undefined\<close>, here \<open>None\<close>. The \<open>Map\<close> from category to index is the list of its
  entries in insertion order.
\<close>

record EncodingInfo =
  columnName :: string
  encoding_type :: ColumnType
  categoricalMapping :: "(string option \<times> nat) list option"
  normalizeStats :: "(jsnum \<times> jsnum) option"

datatype target_type = binary | multiclass | regression

record MatrixShape =
  shape_rows :: jsnum
  shape_cols :: nat

record PreparedDataset =
  features :: "jsnum list"
  featureMatrixShape :: MatrixShape
  prepared_featureNames :: "string list"
  target :: "jsnum list"
  targetType :: target_type
  encodingMap :: "string \<Rightarrow> string option list option"

record PreprocessingReport =
  removedFeatures :: "string list"
  missingValueStats :: "string \<Rightarrow> (strategy \<times> nat) option"
  oneHotMapping :: "(string \<times> string option list) list option"

record PrepareResult =
  prepared :: PreparedDataset
  trainIndices :: "nat list"
  valIndices :: "nat list"
  testIndices :: "nat list option"
  encodingInfo :: "EncodingInfo list"
  preprocessing :: PreprocessingReport

subsection \<open>Reading cells\<close>

text \<open>
  \<open>header.indexOf(name)\<close> is the first position of the name, or -1, here \<open>None\<close>;
  \<open>row[-1]\<close> and a cell beyond the end of the row are \<open>undefined\<close>.
\<close>

fun index_of :: "'a list \<Rightarrow> 'a \<Rightarrow> nat option" where
  "index_of [] y = None"
| "index_of (x # xs) y = (if x = y then Some 0 else map_option Suc (index_of xs y))"

definition cell_at :: "string list \<Rightarrow> nat option \<Rightarrow> string option" where
  "cell_at row i = (case i of None \<Rightarrow> None | Some k \<Rightarrow> if k < length row then Some (row ! k) else None)"

text \<open>\<open>!value || value.trim() === ''\<close>.\<close>

definition missing :: "string option \<Rightarrow> bool" where
  "missing v = (case v of None \<Rightarrow> True | Some s \<Rightarrow> trim s = [])"

definition strategy_of :: "PreprocessingConfig \<Rightarrow> string \<Rightarrow> strategy" where
  "strategy_of config colName =
     (case missingValueStrategy config colName of Some s \<Rightarrow> s | None \<Rightarrow> Mean)"

subsection \<open>Step 1: feature filtering\<close>

definition filterFeatures ::
  "RawDataset \<Rightarrow> InferredColumnMeta list \<Rightarrow> PreprocessingConfig \<Rightarrow> string list \<times> string list" where
  "filterFeatures raw meta config =
     (let constantFeatures =
            (if removeConstantFeatures config
             then map name (filter (\<lambda>col. name col \<in> set (selectedFeatures config) \<and>
                     (case uniqueValues col of Some u \<Rightarrow> length u \<le> 1 | None \<Rightarrow> False)) meta)
             else []);
          filtered1 = filter (\<lambda>f. f \<notin> set constantFeatures) (selectedFeatures config);
          highMissingFeatures =
            (if removeHighMissingFeatures config
             then map name (filter (\<lambda>col. name col \<in> set (selectedFeatures config) \<and>
                     js_gt (js_div (missingCount col) (length (rows raw))) (1 / 2)) meta)
             else []);
          filtered2 = filter (\<lambda>f. f \<notin> set highMissingFeatures) filtered1
      in (filtered2, constantFeatures @ highMissingFeatures))"

subsection \<open>Step 2: cleaning and imputation\<close>

text \<open>
  The property names of an object in \<open>for ... in\<close> order: the names that are canonical
  array indices first, in ascending order, then the other names in creation order.
\<close>

definition digits_value :: "string \<Rightarrow> nat" where
  "digits_value s = foldl (\<lambda>n c. 10 * n + (of_char c - 48)) 0 s"

definition index_name :: "string \<Rightarrow> bool" where
  "index_name s =
     (s \<noteq> [] \<and> list_all is_digit s \<and> (s = ''0'' \<or> hd s \<noteq> CHR ''0'') \<and>
      int (digits_value s) < 2 ^ 32 - 1)"

definition for_in_names :: "string list \<Rightarrow> string list" where
  "for_in_names ks = sort_key digits_value (filter index_name ks) @ filter (\<lambda>k. \<not> index_name k) ks"

text \<open>The most frequent value: the first name, in \<open>for ... in\<close> order, with the greatest count.\<close>

fun most_frequent :: "string list \<Rightarrow> string list \<Rightarrow> nat \<Rightarrow> string \<Rightarrow> string" where
  "most_frequent vs [] maxCount m = m"
| "most_frequent vs (k # ks) maxCount m =
     (if count_list vs k > maxCount then most_frequent vs ks (count_list vs k) k
      else most_frequent vs ks maxCount m)"

definition calculateImputationValue ::
  "(string \<Rightarrow> jsnum) \<Rightarrow> (jsnum \<Rightarrow> string) \<Rightarrow> string list list \<Rightarrow> nat option \<Rightarrow> strategy \<Rightarrow>
   InferredColumnMeta \<Rightarrow> string" where
  "calculateImputationValue parseFloat toString rs columnIndex strat colMeta =
     (let validValues = map the (filter (\<lambda>v. \<not> missing v) (map (\<lambda>row. cell_at row columnIndex) rs));
          numericValues = filter (\<lambda>x. x \<noteq> NaN) (map parseFloat validValues);
          m = most_frequent validValues (for_in_names (set_values validValues)) 0 []
      in if strat = Mean \<and> inferredType colMeta = Numeric \<and> numericValues \<noteq> []
         then toString (js_quot (js_sum numericValues) (Num (of_nat (length numericValues))))
         else if strat = Mode \<and> m \<noteq> [] then m
         else if inferredType colMeta = Numeric then ''0''
         else if inferredType colMeta = Boolean then ''false''
         else ''unknown'')"

text \<open>
  \<open>cleanDataEnhanced\<close>: rows without a target value are dropped; a missing cell of a
  selected feature is replaced by the imputation value of its column (\<open>'0'\<close> when there
  is none), or left empty under the strategy \<open>drop\<close>.
\<close>

definition imputation_value ::
  "(string \<Rightarrow> jsnum) \<Rightarrow> (jsnum \<Rightarrow> string) \<Rightarrow> string list \<Rightarrow> string list list \<Rightarrow>
   InferredColumnMeta list \<Rightarrow> PreprocessingConfig \<Rightarrow> string \<Rightarrow> string option" where
  "imputation_value parseFloat toString hdr validRows meta config colName =
     (case find (\<lambda>col. name col = colName) meta of
        None \<Rightarrow> None
      | Some colMeta \<Rightarrow>
          if colName \<in> set (selectedFeatures config) \<and> strategy_of config colName \<noteq> Drop
          then Some (calculateImputationValue parseFloat toString validRows (index_of hdr colName)
                       (strategy_of config colName) colMeta)
          else None)"

definition imputed_cell :: "PreprocessingConfig \<Rightarrow> string list \<Rightarrow> string \<Rightarrow> nat \<Rightarrow> bool" where
  "imputed_cell config hdr v colIndex =
     (missing (Some v) \<and> colIndex < length hdr \<and> hdr ! colIndex \<in> set (selectedFeatures config) \<and>
      strategy_of config (hdr ! colIndex) \<noteq> Drop)"

definition clean_cell ::
  "(string \<Rightarrow> string option) \<Rightarrow> PreprocessingConfig \<Rightarrow> string list \<Rightarrow> string \<Rightarrow> nat \<Rightarrow> string" where
  "clean_cell imputationValues config hdr v colIndex =
     (if missing (Some v) \<and> colIndex < length hdr \<and> hdr ! colIndex \<in> set (selectedFeatures config)
      then (if strategy_of config (hdr ! colIndex) = Drop then []
            else (case imputationValues (hdr ! colIndex) of
                    Some w \<Rightarrow> if w = [] then ''0'' else w
                  | None \<Rightarrow> ''0''))
      else v)"

definition cleanDataEnhanced ::
  "(string \<Rightarrow> jsnum) \<Rightarrow> (jsnum \<Rightarrow> string) \<Rightarrow> RawDataset \<Rightarrow> InferredColumnMeta list \<Rightarrow>
   PreprocessingConfig \<Rightarrow> string list list \<times> (string \<Rightarrow> (strategy \<times> nat) option)" where
  "cleanDataEnhanced parseFloat toString raw meta config =
     (let targetIndex = index_of (header raw) (targetColumn config);
          validRows = filter (\<lambda>row. \<not> missing (cell_at row targetIndex)) (rows raw);
          imputationValues = imputation_value parseFloat toString (header raw) validRows meta config;
          processedRows =
            map (\<lambda>row. map (\<lambda>(v, colIndex). clean_cell imputationValues config (header raw) v colIndex)
                          (zip row [0..<length row])) validRows;
          imputedCount = (\<lambda>colName.
            sum_list (map (\<lambda>row. length (filter (\<lambda>(v, colIndex).
                            imputed_cell config (header raw) v colIndex \<and>
                            (header raw) ! colIndex = colName) (zip row [0..<length row])))
                       validRows))
      in (processedRows,
          (\<lambda>colName. if colName \<in> set (selectedFeatures config)
                         then Some (strategy_of config colName, imputedCount colName)
                         else None)))"

subsection \<open>Step 3: encoding\<close>

text \<open>
  \<open>encodeColumn(values, columnMeta, columnName)\<close>. A numeric cell that does not parse is
  0; a boolean cell is compared in lower case, and \<open>toLowerCase\<close> of an \<open>undefined\<close> cell
  throws a TypeError; any other column maps each distinct value to its index in
  first-seen order and is recorded as categorical.
\<close>

definition position :: "'a list \<Rightarrow> 'a \<Rightarrow> nat" where
  "position xs x = (case index_of xs x of Some i \<Rightarrow> i | None \<Rightarrow> 0)"

definition truthy_word :: "string \<Rightarrow> bool" where
  "truthy_word s = (toLowerCase s = ''true'' \<or> toLowerCase s = ''1'' \<or> toLowerCase s = ''yes'')"

definition encodeColumn ::
  "(string \<Rightarrow> jsnum) \<Rightarrow> string option list \<Rightarrow> InferredColumnMeta \<Rightarrow> string \<Rightarrow>
   error + (jsnum list \<times> EncodingInfo)" where
  "encodeColumn parseFloat values colMeta colName =
     (if inferredType colMeta = Numeric then
        Inr (map (\<lambda>v. case v of None \<Rightarrow> Num 0
                         | Some s \<Rightarrow> if parseFloat s = NaN then Num 0 else parseFloat s) values,
             \<lparr>columnName = colName, encoding_type = Numeric, categoricalMapping = None,
              normalizeStats = None\<rparr>)
      else if inferredType colMeta = Boolean then
        (if None \<in> set values then Inl TypeError
         else Inr (map (\<lambda>v. if truthy_word (the v) then Num 1 else Num 0) values,
                   \<lparr>columnName = colName, encoding_type = Boolean, categoricalMapping = None,
                    normalizeStats = None\<rparr>))
      else
        (let distinctValues = set_values values
         in Inr (map (\<lambda>v. Num (of_nat (position distinctValues v))) values,
                 \<lparr>columnName = colName, encoding_type = Categorical,
                  categoricalMapping = Some (zip distinctValues [0..<length distinctValues]),
                  normalizeStats = None\<rparr>)))"

text \<open>\<open>oneHotEncode(encoded, categoricalMapping)\<close>: one indicator vector per category.\<close>

definition oneHotEncode ::
  "jsnum list \<Rightarrow> (string option \<times> nat) list \<Rightarrow> jsnum list list \<times> string option list" where
  "oneHotEncode encoded mapping =
     (map (\<lambda>catIdx. map (\<lambda>e. if e = Num (of_nat catIdx) then Num 1 else Num 0) encoded)
        [0..<length mapping],
      map fst mapping)"

text \<open>
  The state of the feature loop of \<open>encodeDataEnhanced\<close>: the encoded columns, the
  expanded feature names, the encoding infos and the one-hot mapping. A feature without
  metadata makes \<open>encodeColumn\<close> read \<open>inferredType\<close> of \<open>undefined\<close>: a TypeError.
  In a template string an \<open>undefined\<close> category prints as \<open>undefined\<close>.
\<close>

record encode_state =
  allFeatureValues :: "jsnum list list"
  expandedFeatureNames :: "string list"
  infos :: "EncodingInfo list"
  oneHot :: "(string \<times> string option list) list"

definition category_text :: "string option \<Rightarrow> string" where
  "category_text c = (case c of Some s \<Rightarrow> s | None \<Rightarrow> ''undefined'')"

definition encode_feature ::
  "(string \<Rightarrow> jsnum) \<Rightarrow> string list \<Rightarrow> string list list \<Rightarrow> InferredColumnMeta list \<Rightarrow>
   PreprocessingConfig \<Rightarrow> encode_state \<Rightarrow> string \<Rightarrow> error + encode_state" where
  "encode_feature parseFloat hdr rs meta config st featureName =
     (case find (\<lambda>col. name col = featureName) meta of
        None \<Rightarrow> Inl TypeError
      | Some featureMeta \<Rightarrow>
          (case encodeColumn parseFloat (map (\<lambda>row. cell_at row (index_of hdr featureName)) rs)
                  featureMeta featureName of
             Inl e \<Rightarrow> Inl e
           | Inr (encoded, info) \<Rightarrow>
               (case categoricalMapping info of
                  Some mapping \<Rightarrow>
                    if PreprocessingConfig.oneHotEncode config \<and> inferredType featureMeta = Categorical
                    then (case oneHotEncode encoded mapping of
                            (encodedVectors, categoryNames) \<Rightarrow>
                              Inr \<lparr>allFeatureValues = allFeatureValues st @ encodedVectors,
                                   expandedFeatureNames = expandedFeatureNames st @
                                     map (\<lambda>c. featureName @ ''_'' @ category_text c) categoryNames,
                                   infos = infos st @
                                     [info\<lparr>categoricalMapping :=
                                        Some (zip categoryNames [0..<length categoryNames])\<rparr>],
                                   oneHot = oneHot st @ [(featureName, categoryNames)]\<rparr>)
                    else Inr \<lparr>allFeatureValues = allFeatureValues st @ [encoded],
                              expandedFeatureNames = expandedFeatureNames st @ [featureName],
                              infos = infos st @ [info], oneHot = oneHot st\<rparr>
                | None \<Rightarrow>
                    Inr \<lparr>allFeatureValues = allFeatureValues st @ [encoded],
                         expandedFeatureNames = expandedFeatureNames st @ [featureName],
                         infos = infos st @ [info], oneHot = oneHot st\<rparr>)))"

fun encode_features ::
  "(string \<Rightarrow> jsnum) \<Rightarrow> string list \<Rightarrow> string list list \<Rightarrow> InferredColumnMeta list \<Rightarrow>
   PreprocessingConfig \<Rightarrow> encode_state \<Rightarrow> string list \<Rightarrow> error + encode_state" where
  "encode_features parseFloat hdr rs meta config st [] = Inr st"
| "encode_features parseFloat hdr rs meta config st (f # fs) =
     (case encode_feature parseFloat hdr rs meta config st f of
        Inl e \<Rightarrow> Inl e
      | Inr st' \<Rightarrow> encode_features parseFloat hdr rs meta config st' fs)"

text \<open>
  The normalization loop runs over the encoded columns and reads \<open>encodingInfo[i]\<close> at
  the index of the column: beyond the end of the infos \<open>info.type\<close> throws a TypeError.
  A numeric info gets the statistics of the column at its index.
\<close>

fun normalize_columns ::
  "(rat \<Rightarrow> rat) \<Rightarrow> nat list \<Rightarrow> jsnum list list \<times> EncodingInfo list \<Rightarrow>
   error + (jsnum list list \<times> EncodingInfo list)" where
  "normalize_columns sq [] st = Inr st"
| "normalize_columns sq (i # is) (cols, es) =
     (if length es \<le> i then Inl TypeError
      else if encoding_type (es ! i) = Numeric
      then (case zScoreNormalize sq (cols ! i) of
              (normalized, m, sd) \<Rightarrow>
                normalize_columns sq is
                  (cols[i := normalized], es[i := (es ! i)\<lparr>normalizeStats := Some (m, sd)\<rparr>]))
      else normalize_columns sq is (cols, es))"

text \<open>
  The row-major matrix: entry \<open>sampleIdx * numFeatures + featureIdx\<close>. The matrix and
  the target are \<open>Float32Array\<close>s: storing a number rounds it to single precision, the
  parameter \<open>fround\<close>.
\<close>

definition flatten :: "nat \<Rightarrow> jsnum list list \<Rightarrow> jsnum list" where
  "flatten numSamples cols =
     concat (map (\<lambda>sampleIdx. map (\<lambda>col. if sampleIdx < length col then col ! sampleIdx else NaN) cols)
                 [0..<numSamples])"

record encoded_data =
  enc_features :: "jsnum list"
  enc_target :: "jsnum list"
  enc_infos :: "EncodingInfo list"
  enc_oneHotMapping :: "(string \<times> string option list) list option"

definition encodeDataEnhanced ::
  "(string \<Rightarrow> jsnum) \<Rightarrow> (rat \<Rightarrow> rat) \<Rightarrow> (jsnum \<Rightarrow> jsnum) \<Rightarrow> string list \<Rightarrow> string list list \<Rightarrow>
   InferredColumnMeta list \<Rightarrow> PreprocessingConfig \<Rightarrow> error + encoded_data" where
  "encodeDataEnhanced parseFloat sq fround hdr rs meta config =
     (case find (\<lambda>col. name col = targetColumn config) meta of
        None \<Rightarrow> Inl TypeError
      | Some targetMeta \<Rightarrow>
          (case encodeColumn parseFloat (map (\<lambda>row. cell_at row (index_of hdr (targetColumn config))) rs)
                  targetMeta (targetColumn config) of
             Inl e \<Rightarrow> Inl e
           | Inr (encodedTarget, targetInfo) \<Rightarrow>
               (case encode_features parseFloat hdr rs meta config
                       \<lparr>allFeatureValues = [], expandedFeatureNames = [], infos = [], oneHot = []\<rparr>
                       (selectedFeatures config) of
                  Inl e \<Rightarrow> Inl e
                | Inr st \<Rightarrow>
                    (case (if normalization config
                           then normalize_columns sq [0..<length (allFeatureValues st)]
                                  (allFeatureValues st, infos st)
                           else Inr (allFeatureValues st, infos st)) of
                       Inl e \<Rightarrow> Inl e
                     | Inr (cols, es) \<Rightarrow>
                         Inr \<lparr>enc_features = map fround (flatten (length rs) cols),
                              enc_target = map fround encodedTarget,
                              enc_infos = es,
                              enc_oneHotMapping = (if oneHot st = [] then None else Some (oneHot st))\<rparr>))))"

subsection \<open>Step 4: splits\<close>

text \<open>
  \<open>createDataSplits\<close>: with a non-zero \<open>validationSplitRatio\<close> the rows that are not
  in the training set are split a second time, and the indices of that split are
  mapped back through \<open>valTestIndices\<close>.
\<close>

definition createDataSplits ::
  "jsnum list \<Rightarrow> PreprocessingConfig \<Rightarrow> rng \<Rightarrow> (nat list \<times> nat list \<times> nat list option) \<times> rng" where
  "createDataSplits targetArray config g =
     (case validationSplitRatio config of
        None \<Rightarrow>
          (case stratifiedSplit targetArray (Num (trainSplitRatio config)) g of
             ((tr, va), g') \<Rightarrow> ((tr, va, None), g'))
      | Some testRatio \<Rightarrow>
          if testRatio = 0 then
            (case stratifiedSplit targetArray (Num (trainSplitRatio config)) g of
               ((tr, va), g') \<Rightarrow> ((tr, va, None), g'))
          else
            (let valRatio = (1 - trainSplitRatio config) - testRatio
             in case stratifiedSplit targetArray (Num (trainSplitRatio config)) g of
                  ((tr, valTestIndices), g1) \<Rightarrow>
                    (case stratifiedSplit (map (\<lambda>idx. targetArray ! idx) valTestIndices)
                            (js_quot (Num valRatio) (Num (valRatio + testRatio))) g1 of
                       ((va, te), g2) \<Rightarrow>
                         ((tr, map (\<lambda>idx. valTestIndices ! idx) va,
                           Some (map (\<lambda>idx. valTestIndices ! idx) te)), g2))))"

definition getTargetType :: "InferredColumnMeta list \<Rightarrow> string \<Rightarrow> target_type" where
  "getTargetType meta targetName =
     (case find (\<lambda>col. name col = targetName) meta of
        None \<Rightarrow> binary
      | Some targetMeta \<Rightarrow>
          if inferredType targetMeta = Numeric then regression
          else (let numClasses = (case uniqueValues targetMeta of
                                    Some u \<Rightarrow> if length u = 0 then 2 else length u
                                  | None \<Rightarrow> 2)
                in if numClasses \<le> 2 then binary else multiclass))"

definition createEncodingMap :: "EncodingInfo list \<Rightarrow> string \<Rightarrow> string option list option" where
  "createEncodingMap es =
     foldl (\<lambda>m info. case categoricalMapping info of
                        Some mapping \<Rightarrow> m(columnName info \<mapsto> map fst mapping)
                      | None \<Rightarrow> m) Map.empty es"

subsection \<open>prepareDataset\<close>

text \<open>
  \<open>prepareDataset\<close> reports \<open>cols = filteredFeatures.length\<close>,
  \<open>rows = features.length / filteredFeatures.length\<close> and
  \<open>featureNames = filteredFeatures\<close>.
\<close>

definition prepareDataset ::
  "(string \<Rightarrow> jsnum) \<Rightarrow> (jsnum \<Rightarrow> string) \<Rightarrow> (rat \<Rightarrow> rat) \<Rightarrow> (jsnum \<Rightarrow> jsnum) \<Rightarrow> RawDataset \<Rightarrow>
   InferredColumnMeta list \<Rightarrow> PreprocessingConfig \<Rightarrow> rng \<Rightarrow> error + (PrepareResult \<times> rng)" where
  "prepareDataset parseFloat toString sq fround raw meta config g =
     (case filterFeatures raw meta config of
        (filteredFeatures, removed) \<Rightarrow>
          (case cleanDataEnhanced parseFloat toString raw meta
                  (config\<lparr>selectedFeatures := filteredFeatures\<rparr>) of
             (cleanedRows, stats) \<Rightarrow>
               (case encodeDataEnhanced parseFloat sq fround (header raw) cleanedRows meta
                       (config\<lparr>selectedFeatures := filteredFeatures\<rparr>) of
                  Inl e \<Rightarrow> Inl e
                | Inr enc \<Rightarrow>
                    (case createDataSplits (enc_target enc) config g of
                       ((tr, va, te), g') \<Rightarrow>
                         Inr (\<lparr>prepared =
                                 \<lparr>features = enc_features enc,
                                  featureMatrixShape =
                                    \<lparr>shape_rows = js_div (length (enc_features enc)) (length filteredFeatures),
                                     shape_cols = length filteredFeatures\<rparr>,
                                  prepared_featureNames = filteredFeatures,
                                  target = enc_target enc,
                                  targetType = getTargetType meta (targetColumn config),
                                  encodingMap = createEncodingMap (enc_infos enc)\<rparr>,
                               trainIndices = tr, valIndices = va, testIndices = te,
                               encodingInfo = enc_infos enc,
                               preprocessing =
                                 \<lparr>removedFeatures = removed, missingValueStats = stats,
                                  oneHotMapping = enc_oneHotMapping enc\<rparr>\<rparr>, g')))))"

subsection \<open>The inference-time transform\<close>

text \<open>
  \<open>preprocessInference(rawData, encodingInfo)\<close>: one number per encoding info.
  \<open>rawData[columnName] || ''\<close> is the empty string for an absent column;
  \<open>parseFloat(rawValue) || 0\<close> and \<open>mapping.get(rawValue) || 0\<close> are 0 for \<open>NaN\<close> and for
  an unknown category.
\<close>

definition lookup_category :: "(string option \<times> nat) list \<Rightarrow> string \<Rightarrow> jsnum" where
  "lookup_category mapping v = (case map_of mapping (Some v) of Some i \<Rightarrow> Num (of_nat i) | None \<Rightarrow> Num 0)"

definition encode_inference :: "(string \<Rightarrow> jsnum) \<Rightarrow> (string \<Rightarrow> string option) \<Rightarrow> EncodingInfo \<Rightarrow> jsnum" where
  "encode_inference parseFloat rawData info =
     (let rawValue = (case rawData (columnName info) of Some s \<Rightarrow> s | None \<Rightarrow> [])
      in if encoding_type info = Numeric then
           (let encodedValue = (if parseFloat rawValue = NaN then Num 0 else parseFloat rawValue)
            in case normalizeStats info of
                 Some (m, sd) \<Rightarrow> js_quot (js_sub encodedValue m) sd
               | None \<Rightarrow> encodedValue)
         else if encoding_type info = Boolean then
           (if truthy_word rawValue then Num 1 else Num 0)
         else if encoding_type info = Categorical then
           (case categoricalMapping info of
              Some mapping \<Rightarrow> lookup_category mapping rawValue
            | None \<Rightarrow> Num 0)
         else Num 0)"

definition preprocessInference ::
  "(string \<Rightarrow> jsnum) \<Rightarrow> (jsnum \<Rightarrow> jsnum) \<Rightarrow> (string \<Rightarrow> string option) \<Rightarrow> EncodingInfo list \<Rightarrow>
   jsnum list" where
  "preprocessInference parseFloat fround rawData es =
     map (\<lambda>info. fround (encode_inference parseFloat rawData info)) es"

subsection \<open>A dataset with a one-hot encoded feature\<close>

text \<open>
  Two rows, the categorical feature \<open>color\<close> with the categories \<open>red\<close> and \<open>blue\<close>, the
  boolean target \<open>y\<close>, and one-hot encoding switched on. No cell is numeric, so
  \<open>parseFloat\<close> is \<open>NaN\<close> on every cell, and nothing is imputed.
\<close>

definition colors :: RawDataset where
  "colors = \<lparr>dataset_name = ''colors.csv'', originalCSV = [],
     rows = [[''red'', ''yes''], [''blue'', ''no'']], header = [''color'', ''y'']\<rparr>"

definition colors_meta :: "InferredColumnMeta list" where
  "colors_meta =
     [\<lparr>name = ''color'', index = 0, inferredType = Categorical, missingCount = 0,
       uniqueValues = Some [''red'', ''blue'']\<rparr>,
      \<lparr>name = ''y'', index = 1, inferredType = Boolean, missingCount = 0, uniqueValues = None\<rparr>]"

definition colors_config :: PreprocessingConfig where
  "colors_config = \<lparr>targetColumn = ''y'', selectedFeatures = [''color''], normalization = False,
     missingValueStrategy = (\<lambda>c. None), trainSplitRatio = 4 / 5, validationSplitRatio = None,
     removeConstantFeatures = False, removeHighMissingFeatures = False, oneHotEncode = True\<rparr>"

subsection \<open>A dataset with a missing numeric cell\<close>

text \<open>
  Three rows, the numeric feature \<open>x\<close> with the cells \<open>1\<close>, empty and \<open>3\<close>, the boolean target
  \<open>y\<close>, and the default strategy \<open>mean\<close>. \<open>parseFloat\<close> and \<open>toString\<close> are given on the
  cells that occur: \<open>parseFloat\<close> of the empty string is \<open>NaN\<close>, and the mean 2 prints
  as \<open>2\<close>.
\<close>

definition digits_parseFloat :: "string \<Rightarrow> jsnum" where
  "digits_parseFloat s =
     (if s = ''1'' then Num 1 else if s = ''2'' then Num 2 else if s = ''3'' then Num 3 else NaN)"

definition digits_toString :: "jsnum \<Rightarrow> string" where
  "digits_toString x =
     (if x = Num 1 then ''1'' else if x = Num 2 then ''2'' else if x = Num 3 then ''3'' else ''NaN'')"

definition gaps :: RawDataset where
  "gaps = \<lparr>dataset_name = ''gaps.csv'', originalCSV = [],
     rows = [[''1'', ''yes''], ['''', ''no''], [''3'', ''yes'']], header = [''x'', ''y'']\<rparr>"

definition gaps_meta :: "InferredColumnMeta list" where
  "gaps_meta =
     [\<lparr>name = ''x'', index = 0, inferredType = Numeric, missingCount = 1, uniqueValues = None\<rparr>,
      \<lparr>name = ''y'', index = 1, inferredType = Boolean, missingCount = 0, uniqueValues = None\<rparr>]"

definition gaps_config :: PreprocessingConfig where
  "gaps_config = \<lparr>targetColumn = ''y'', selectedFeatures = [''x''], normalization = False,
     missingValueStrategy = (\<lambda>c. None), trainSplitRatio = 4 / 5, validationSplitRatio = None,
     removeConstantFeatures = False, removeHighMissingFeatures = False, oneHotEncode = False\<rparr>"

subsection \<open>The shape of the prepared dataset\<close>

text \<open>
  Every number of the two datasets is a whole number between 0 and 4, which single
  precision holds exactly: \<open>fround\<close> is the identity below, and so is \<open>Math.sqrt\<close>, which
  is not called without normalization.

  Without one-hot expansion the matrix has one column per selected feature. With it,
  \<open>encodeDataEnhanced\<close> lays out one column per category and collects the names
  \<open>color_red\<close> and \<open>color_blue\<close> in \<open>expandedFeatureNames\<close>, but returns neither the names
  nor the column count; \<open>prepareDataset\<close> takes both from \<open>filteredFeatures\<close> and
  divides the matrix length by that count.
\<close>

lemma prepareDataset_reports_filtered:
  assumes "prepareDataset parseFloat toString sq fround raw meta config g = Inr (r, g')"
  shows "prepared_featureNames (prepared r) = fst (filterFeatures raw meta config) \<and>
         shape_cols (featureMatrixShape (prepared r)) = length (fst (filterFeatures raw meta config)) \<and>
         shape_rows (featureMatrixShape (prepared r)) =
           js_div (length (features (prepared r))) (length (fst (filterFeatures raw meta config)))"
  using assms by (auto simp add: prepareDataset_def split: prod.splits sum.splits)

lemma prepareDataset_gaps:
  "(case prepareDataset digits_parseFloat digits_toString (\<lambda>x. x) (\<lambda>x. x) gaps gaps_meta gaps_config (\<lambda>k. 0) of
      Inl e \<Rightarrow> None
    | Inr (r, g) \<Rightarrow>
        Some (features (prepared r), featureMatrixShape (prepared r),
              prepared_featureNames (prepared r), target (prepared r))) =
   Some ([Num 1, Num 2, Num 3], \<lparr>shape_rows = Num 3, shape_cols = 1\<rparr>, [''x''],
         [Num 1, Num 0, Num 1])"
  by code_simp

text \<open>
  Claim C1: the prepared dataset has \<open>features.length = rows * cols\<close>,
  \<open>target.length = rows\<close>, and \<open>cols\<close> and \<open>featureNames\<close> count the indicator columns of a
  one-hot encoded feature. The code does not keep this: on the two rows of \<open>colors\<close>
  the feature matrix holds the four entries of two indicator columns, while the
  result reports 4 rows and 1 column, the single feature name \<open>color\<close>, and a target
  of length 2.
\<close>

theorem prepareDataset_one_hot_shape:
  "(case prepareDataset (\<lambda>s. NaN) (\<lambda>x. ''NaN'') (\<lambda>x. x) (\<lambda>x. x) colors colors_meta colors_config (\<lambda>k. 0) of
      Inl e \<Rightarrow> None
    | Inr (r, g) \<Rightarrow>
        Some (features (prepared r), featureMatrixShape (prepared r),
              prepared_featureNames (prepared r), length (target (prepared r)),
              oneHotMapping (preprocessing r))) =
   Some ([Num 1, Num 0, Num 0, Num 1], \<lparr>shape_rows = Num 4, shape_cols = 1\<rparr>, [''color''], 2,
         Some [(''color'', [Some ''red'', Some ''blue''])])"
  by code_simp

text \<open>
  With normalization switched on as well, the loop over the expanded columns reads
  \<open>encodingInfo[i]\<close> past the end of the list, which has one entry per feature, and
  \<open>info.type\<close> throws.
\<close>

lemma prepareDataset_one_hot_normalized:
  "(case prepareDataset (\<lambda>s. NaN) (\<lambda>x. ''NaN'') (\<lambda>x. x) (\<lambda>x. x) colors colors_meta
           (colors_config\<lparr>normalization := True\<rparr>) (\<lambda>k. 0) of
      Inl e \<Rightarrow> Some e
    | Inr (r, g) \<Rightarrow> None) = Some TypeError"
  by code_simp

subsection \<open>Inference against training\<close>

lemma preprocessInference_one_hot:
  "(case prepareDataset (\<lambda>s. NaN) (\<lambda>x. ''NaN'') (\<lambda>x. x) (\<lambda>x. x) colors colors_meta colors_config (\<lambda>k. 0) of
      Inl e \<Rightarrow> None
    | Inr (r, g) \<Rightarrow>
        Some (features (prepared r),
              preprocessInference (\<lambda>s. NaN) (\<lambda>x. x) [''color'' \<mapsto> ''blue''] (encodingInfo r))) =
   Some ([Num 1, Num 0, Num 0, Num 1], [Num 1])"
  by code_simp

lemma preprocessInference_imputation:
  "(case prepareDataset digits_parseFloat digits_toString (\<lambda>x. x) (\<lambda>x. x) gaps gaps_meta gaps_config (\<lambda>k. 0) of
      Inl e \<Rightarrow> None
    | Inr (r, g) \<Rightarrow>
        Some (features (prepared r),
              preprocessInference digits_parseFloat (\<lambda>x. x) [''x'' \<mapsto> ''''] (encodingInfo r))) =
   Some ([Num 1, Num 2, Num 3], [Num 0])"
  by code_simp

text \<open>
  Claim C2: \<open>preprocessInference\<close> on a raw row that was used in training, with the
  encoding infos that \<open>prepareDataset\<close> returned, reproduces the training vector of
  that row. The code does not: it neither expands a one-hot encoded feature nor
  imputes a missing cell. The second row of \<open>colors\<close> is \<open>[0, 1]\<close> in the training
  matrix and \<open>[1]\<close> at inference; the second row of \<open>gaps\<close> is \<open>[2]\<close> in the training
  matrix, the mean of 1 and 3, and \<open>[0]\<close> at inference.
\<close>

theorem preprocessInference_differs_from_training:
  "(case prepareDataset (\<lambda>s. NaN) (\<lambda>x. ''NaN'') (\<lambda>x. x) (\<lambda>x. x) colors colors_meta colors_config (\<lambda>k. 0) of
      Inl e \<Rightarrow> None
    | Inr (r, g) \<Rightarrow>
        Some (features (prepared r),
              preprocessInference (\<lambda>s. NaN) (\<lambda>x. x) [''color'' \<mapsto> ''blue''] (encodingInfo r))) =
   Some ([Num 1, Num 0, Num 0, Num 1], [Num 1]) \<and>
   (case prepareDataset digits_parseFloat digits_toString (\<lambda>x. x) (\<lambda>x. x) gaps gaps_meta gaps_config (\<lambda>k. 0) of
      Inl e \<Rightarrow> None
    | Inr (r, g) \<Rightarrow>
        Some (features (prepared r),
              preprocessInference digits_parseFloat (\<lambda>x. x) [''x'' \<mapsto> ''''] (encodingInfo r))) =
   Some ([Num 1, Num 2, Num 3], [Num 0])"
  by (rule conjI[OF preprocessInference_one_hot preprocessInference_imputation])

section \<open>Hyperparameters and training metrics\<close>

text \<open>
  The interfaces \<open>LogisticRegressionConfig\<close> and \<open>TrainingMetrics\<close>. Every field is a
  JavaScript \<open>number\<close>, here a finite one.
\<close>

record LogisticRegressionConfig =
  learningRate :: real
  epochs :: real
  regularization :: real
  batchSize :: real
  earlyStoppingPatience :: real
  randomSeed :: "real option"

record TrainingMetrics =
  epoch :: real
  loss :: real
  valLoss :: "real option"
  acc :: "real option"
  valAcc :: "real option"

section \<open>The training orchestrator\<close>

datatype model_type = logistic | neuralnet

record TrainingConfig =
  modelType :: model_type
  preprocessing :: PreprocessingConfig
  hyperparams :: LogisticRegressionConfig

text \<open>
  \<open>Trainer.validateConfig\<close>: the checks in the order of the source, each with its own
  message. The loop over the selected features throws at the first feature that has
  no column metadata.
\<close>

definition column_exists :: "InferredColumnMeta list \<Rightarrow> string \<Rightarrow> bool" where
  "column_exists meta n = list_ex (\<lambda>col. name col = n) meta"

definition quoted :: "string \<Rightarrow> string" where
  "quoted s = [CHR 0x27] @ s @ [CHR 0x27]"

definition missing_feature :: "TrainingConfig \<Rightarrow> InferredColumnMeta list \<Rightarrow> string option" where
  "missing_feature config meta =
     find (\<lambda>feature. \<not> column_exists meta feature) (selectedFeatures (preprocessing config))"

definition validateConfig :: "TrainingConfig \<Rightarrow> InferredColumnMeta list \<Rightarrow> error + unit" where
  "validateConfig config meta =
     (if \<not> column_exists meta (targetColumn (preprocessing config))
      then Inl (Error (''Target column '' @ quoted (targetColumn (preprocessing config)) @
                       '' not found in dataset''))
      else (case missing_feature config meta of
              Some feature \<Rightarrow>
                Inl (Error (''Feature column '' @ quoted feature @ '' not found in dataset''))
            | None \<Rightarrow>
                if length (selectedFeatures (preprocessing config)) = 0
                then Inl (Error ''At least one feature must be selected'')
                else if learningRate (hyperparams config) \<le> 0 \<or> learningRate (hyperparams config) > 1
                then Inl (Error ''Learning rate must be between 0 and 1'')
                else if epochs (hyperparams config) \<le> 0 \<or> epochs (hyperparams config) > 10000
                then Inl (Error ''Epochs must be between 1 and 10000'')
                else Inr ()))"

text \<open>
  \<open>Trainer.trainModel\<close> as far as the claims reach. Its observable steps are recorded in
  order: every call of \<open>onProgress\<close>, and the call of \<open>DataPreprocessor.prepareDataset\<close>.
  The steps after preprocessing (splitting the matrix, training and evaluating the
  model, the final progress event) are the parameter \<open>continue\<close>: they start from the
  result of \<open>prepareDataset\<close>.
\<close>

datatype stage = Preprocessing | Training | Validation | Complete

record TrainingProgress =
  stage :: stage
  progress :: rat
  message :: string

datatype event = OnProgress TrainingProgress | PrepareDataset

definition trainModel ::
  "(string \<Rightarrow> jsnum) \<Rightarrow> (jsnum \<Rightarrow> string) \<Rightarrow> (rat \<Rightarrow> rat) \<Rightarrow> (jsnum \<Rightarrow> jsnum) \<Rightarrow>
   (PrepareResult \<Rightarrow> rng \<Rightarrow> event list \<times> (error + 'r)) \<Rightarrow>
   RawDataset \<Rightarrow> InferredColumnMeta list \<Rightarrow> TrainingConfig \<Rightarrow> rng \<Rightarrow> event list \<times> (error + 'r)" where
  "trainModel parseFloat toString sq fround continue raw meta config g =
     (let validating = [OnProgress \<lparr>stage = Preprocessing, progress = 0,
                                   message = ''Validating configuration...''\<rparr>]
      in case validateConfig config meta of
           Inl e \<Rightarrow> (validating, Inl e)
         | Inr _ \<Rightarrow>
             (let preparing = validating @
                    [OnProgress \<lparr>stage = Preprocessing, progress = 2 / 10,
                                 message = ''Preparing dataset...''\<rparr>,
                     PrepareDataset]
              in case prepareDataset parseFloat toString sq fround raw meta (preprocessing config) g of
                   Inl e \<Rightarrow> (preparing, Inl e)
                 | Inr (preprocessResult, g') \<Rightarrow>
                     (case continue preprocessResult g' of
                        (later, result) \<Rightarrow>
                          (preparing @
                             [OnProgress \<lparr>stage = Preprocessing, progress = 8 / 10,
                                          message = ''Splitting data...''\<rparr>] @ later,
                           result))))"

subsection \<open>Validation comes first\<close>

lemma find_Some_member: "find P xs = Some x \<Longrightarrow> x \<in> set xs \<and> P x"
  by (induction xs) (auto split: if_splits)



lemma missing_feature_Some:
  "missing_feature config meta = Some f \<Longrightarrow>
     f \<in> set (selectedFeatures (preprocessing config)) \<and> \<not> column_exists meta f"
  unfolding missing_feature_def by (rule find_Some_member)







lemma validateConfig_ok:
  "column_exists meta (targetColumn (preprocessing config)) \<Longrightarrow>
   missing_feature config meta = None \<Longrightarrow>
   selectedFeatures (preprocessing config) \<noteq> [] \<Longrightarrow>
   0 < learningRate (hyperparams config) \<Longrightarrow> learningRate (hyperparams config) \<le> 1 \<Longrightarrow>
   0 < epochs (hyperparams config) \<Longrightarrow> epochs (hyperparams config) \<le> 10000 \<Longrightarrow>
     validateConfig config meta = Inr ()"
  by (simp add: validateConfig_def)

lemma validateConfig_Error:
  "validateConfig config meta = Inl e \<Longrightarrow> \<exists>msg. e = Error msg"
  by (auto simp add: validateConfig_def split: if_splits option.splits)



lemma trainModel_valid:
  assumes "validateConfig config meta = Inr ()"
  shows "PrepareDataset \<in> set (fst (trainModel pf ts sq fr continue raw meta config g))"
  using assms by (auto simp add: trainModel_def Let_def split: sum.splits prod.splits)

text \<open>
  A count of epochs that is positive and at most 10000 passes the check, whole or
  not: the source compares with \<open>epochs <= 0\<close>.
\<close>

lemma validateConfig_fractional_epochs:
  "validateConfig
     \<lparr>modelType = logistic,
      preprocessing = \<lparr>targetColumn = ''y'', selectedFeatures = [''x''], normalization = False,
        missingValueStrategy = (\<lambda>c. None), trainSplitRatio = 4 / 5, validationSplitRatio = None,
        removeConstantFeatures = False, removeHighMissingFeatures = False, oneHotEncode = False\<rparr>,
      hyperparams = \<lparr>learningRate = 1 / 10, epochs = 1 / 2, regularization = 1 / 100, batchSize = 32,
                  earlyStoppingPatience = 20, randomSeed = None\<rparr>\<rparr>
     [\<lparr>name = ''x'', index = 0, inferredType = Numeric, missingCount = 0, uniqueValues = None\<rparr>,
      \<lparr>name = ''y'', index = 1, inferredType = Boolean, missingCount = 0, uniqueValues = None\<rparr>] =
   Inr ()"
  by (simp add: validateConfig_def missing_feature_def column_exists_def)



section \<open>Logistic regression: the model object\<close>

text \<open>
  The private fields of the class \<open>LogisticRegression\<close>. \<open>weights\<close> is a \<open>Float32Array\<close>:
  storing a number in it rounds the number to single precision. The rounding is the
  parameter \<open>fround\<close> of the functions that store; an array holds single-precision
  values when \<open>fround\<close> leaves each of them unchanged.
\<close>

record LogisticRegression =
  weights :: "real list"
  bias :: real
  config :: LogisticRegressionConfig
  featureNames :: "string list"
  trainingHistory :: "TrainingMetrics list"

definition float32_array :: "(real \<Rightarrow> real) \<Rightarrow> real list \<Rightarrow> bool" where
  "float32_array fround ws = list_all (\<lambda>w. fround w = w) ws"

text \<open>
  The constructor draws one random number per feature:
  \<open>weights[i] = (Math.random() - 0.5) * 0.1\<close>, bias 0, empty history.
\<close>

definition new_LogisticRegression ::
  "(real \<Rightarrow> real) \<Rightarrow> nat \<Rightarrow> LogisticRegressionConfig \<Rightarrow> string list \<Rightarrow> rng \<Rightarrow> LogisticRegression \<times> rng" where
  "new_LogisticRegression fround numFeatures cfg names g =
     (\<lparr>weights = map (\<lambda>i. fround ((of_rat (g i) - 1 / 2) * (1 / 10))) [0..<numFeatures],
       bias = 0, config = cfg, featureNames = names, trainingHistory = []\<rparr>,
      rng_drop numFeatures g)"

text \<open>
  \<open>predictProbability(X, sampleIndex, numFeatures)\<close>. Reading \<open>weights[j]\<close> or
  \<open>X[sampleIndex * numFeatures + j]\<close> beyond the end of the array gives \<open>undefined\<close> and the
  logit becomes \<open>NaN\<close>, which \<open>sigmoid\<close> passes on; \<open>None\<close> stands for \<open>NaN\<close>.
\<close>

definition read :: "real list \<Rightarrow> nat \<Rightarrow> real option" where
  "read xs i = (if i < length xs then Some (xs ! i) else None)"

definition logit_step :: "real list \<Rightarrow> real list \<Rightarrow> nat \<Rightarrow> real option \<Rightarrow> nat \<Rightarrow> real option" where
  "logit_step ws X base logit j =
     (case (logit, read ws j, read X (base + j)) of
        (Some z, Some w, Some x) \<Rightarrow> Some (z + w * x)
      | _ \<Rightarrow> None)"

definition predictProbability :: "LogisticRegression \<Rightarrow> real list \<Rightarrow> nat \<Rightarrow> nat \<Rightarrow> real option" where
  "predictProbability model X sampleIndex numFeatures =
     map_option sigmoid
       (foldl (logit_step (weights model) X (sampleIndex * numFeatures)) (Some (bias model))
          [0..<numFeatures])"

text \<open>\<open>predict\<close> stores each probability in a \<open>Float32Array\<close> of \<open>numSamples\<close> entries.\<close>

definition predict :: "(real \<Rightarrow> real) \<Rightarrow> LogisticRegression \<Rightarrow> real list \<Rightarrow> nat \<Rightarrow> nat \<Rightarrow> real option list" where
  "predict fround model X numSamples numFeatures =
     map (\<lambda>i. map_option fround (predictProbability model X i numFeatures)) [0..<numSamples]"

text \<open>\<open>predictClasses\<close>: \<open>probabilities[i] >= threshold ? 1 : 0\<close>, which is 0 for \<open>NaN\<close>.\<close>

definition predictClasses ::
  "(real \<Rightarrow> real) \<Rightarrow> LogisticRegression \<Rightarrow> real list \<Rightarrow> nat \<Rightarrow> nat \<Rightarrow> real \<Rightarrow> nat list" where
  "predictClasses fround model X numSamples numFeatures t =
     map (\<lambda>p. case p of Some q \<Rightarrow> (if q \<ge> t then 1 else 0) | None \<Rightarrow> 0)
       (predict fround model X numSamples numFeatures)"

text \<open>
  \<open>export()\<close> copies the weights into a plain array (\<open>Array.from\<close>, exact) next to the
  bias, the feature names and the configuration. \<open>load(modelData)\<close> constructs a
  model for \<open>modelData.weights.length\<close> features, which draws random initial weights,
  and then overwrites the weights by \<open>new Float32Array(modelData.weights)\<close> and the bias.
\<close>

record ModelData =
  data_weights :: "real list"
  data_bias :: real
  data_featureNames :: "string list"
  data_config :: LogisticRegressionConfig

definition export :: "LogisticRegression \<Rightarrow> ModelData" where
  "export model =
     \<lparr>data_weights = weights model, data_bias = bias model,
      data_featureNames = featureNames model, data_config = config model\<rparr>"

definition load :: "(real \<Rightarrow> real) \<Rightarrow> ModelData \<Rightarrow> rng \<Rightarrow> LogisticRegression \<times> rng" where
  "load fround modelData g =
     (let (model, g') = new_LogisticRegression fround (length (data_weights modelData))
                          (data_config modelData) (data_featureNames modelData) g
      in (model\<lparr>weights := map fround (data_weights modelData), bias := data_bias modelData\<rparr>, g'))"

lemma float32_array_map:
  "\<forall>x. fround (fround x) = fround x \<Longrightarrow> float32_array fround (map fround ws)"
  by (simp add: float32_array_def list_all_iff)

lemma new_LogisticRegression_float32:
  assumes "\<forall>x. fround (fround x) = fround x"
  shows "float32_array fround (weights (fst (new_LogisticRegression fround n cfg names g)))"
  using assms by (simp add: new_LogisticRegression_def float32_array_def list_all_iff)

lemma load_float32:
  assumes "\<forall>x. fround (fround x) = fround x"
  shows "float32_array fround (weights (fst (load fround d g)))"
  using assms by (simp add: load_def new_LogisticRegression_def float32_array_def list_all_iff)

lemma load_export:
  assumes "float32_array fround (weights model)"
  shows "fst (load fround (export model) g) = model\<lparr>trainingHistory := []\<rparr>"
proof -
  have "map fround (weights model) = weights model"
    using assms by (simp add: float32_array_def list_all_iff map_idI)
  then show ?thesis
    by (simp add: load_def export_def new_LogisticRegression_def)
qed

text \<open>
  Claim C9. For every model whose weights are single-precision values, as the weights
  of every \<open>LogisticRegression\<close> object are, the model loaded from \<open>export()\<close> has the
  same weights, bias, feature names and configuration, and \<open>predictProbability\<close>,
  \<open>predict\<close> and \<open>predictClasses\<close> (at any threshold) agree with the original on every
  input. Nothing is retrained: only the training history is not carried over.
\<close>

theorem export_load_round_trip:
  assumes "float32_array fround (weights model)"
  shows "weights (fst (load fround (export model) g)) = weights model \<and>
         bias (fst (load fround (export model) g)) = bias model \<and>
         featureNames (fst (load fround (export model) g)) = featureNames model \<and>
         config (fst (load fround (export model) g)) = config model \<and>
         predictProbability (fst (load fround (export model) g)) X i n = predictProbability model X i n \<and>
         predict fround (fst (load fround (export model) g)) X k n = predict fround model X k n \<and>
         predictClasses fround (fst (load fround (export model) g)) X k n t =
           predictClasses fround model X k n t"
  by (simp add: load_export[OF assms] predictProbability_def predict_def predictClasses_def)

text \<open>
  The theorem at a model with two weights that are multiples of 1/8, where storing
  rounds down to a multiple of 1/8.
\<close>

theorem export_load_round_trip_witness:
  "float32_array (\<lambda>x. of_int \<lfloor>x * 8\<rfloor> / 8)
     (weights \<lparr>weights = [1 / 2, - 3 / 4], bias = 1 / 3,
         config = \<lparr>learningRate = 1 / 10, epochs = 200, regularization = 1 / 100, batchSize = 32,
           earlyStoppingPatience = 20, randomSeed = None\<rparr>,
         featureNames = [''x1'', ''x2''], trainingHistory = []\<rparr>) \<and>
   weights (fst (load (\<lambda>x. of_int \<lfloor>x * 8\<rfloor> / 8)
     (export \<lparr>weights = [1 / 2, - 3 / 4], bias = 1 / 3,
         config = \<lparr>learningRate = 1 / 10, epochs = 200, regularization = 1 / 100, batchSize = 32,
           earlyStoppingPatience = 20, randomSeed = None\<rparr>,
         featureNames = [''x1'', ''x2''], trainingHistory = []\<rparr>) (\<lambda>k. 0))) = [1 / 2, - 3 / 4] \<and>
   predictProbability (fst (load (\<lambda>x. of_int \<lfloor>x * 8\<rfloor> / 8)
     (export \<lparr>weights = [1 / 2, - 3 / 4], bias = 1 / 3,
         config = \<lparr>learningRate = 1 / 10, epochs = 200, regularization = 1 / 100, batchSize = 32,
           earlyStoppingPatience = 20, randomSeed = None\<rparr>,
         featureNames = [''x1'', ''x2''], trainingHistory = []\<rparr>) (\<lambda>k. 0))) [2, 1] 0 2 =
     Some (sigmoid (7 / 12))"
proof -
  let ?fr = "\<lambda>x::real. of_int \<lfloor>x * 8\<rfloor> / 8"
  let ?m = "\<lparr>weights = [1 / 2, - 3 / 4], bias = 1 / 3,
         config = \<lparr>learningRate = 1 / 10, epochs = 200, regularization = 1 / 100, batchSize = 32,
           earlyStoppingPatience = 20, randomSeed = None\<rparr>,
         featureNames = [''x1'', ''x2''], trainingHistory = []\<rparr>"
  have "\<exists>n. real_of_int n = - 6"
    by (rule exI[of _ "- 6"]) simp
  then have h: "float32_array ?fr (weights ?m)"
    by (simp add: float32_array_def)
  have p: "predictProbability ?m [2, 1] 0 2 = Some (sigmoid (7 / 12))"
    by (simp add: predictProbability_def logit_step_def read_def upt_rec)
  from export_load_round_trip[OF h, of "\<lambda>k. 0" "[2, 1]" 0 2] h p show ?thesis
    by simp
qed

end
